theory Spec2Isabelle
  imports Complex_Main
begin

section \<open>Strings\<close>

text \<open>
  Go strings are byte sequences; they are modelled as \<open>string\<close> (a list of 8-bit
  characters), so \<open>length\<close> is Go's \<open>len\<close>. Text outside ASCII is written as its
  UTF-8 bytes.
\<close>

abbreviation (input) apos :: string where
  "apos \<equiv> [CHR 0x27]"

abbreviation (input) newline :: string where
  "newline \<equiv> [CHR 0x0A]"

text \<open>\<open>strings.HasPrefix\<close> and \<open>strings.Contains\<close>.\<close>

fun HasPrefix :: "string \<Rightarrow> string \<Rightarrow> bool" where
  "HasPrefix s [] = True"
| "HasPrefix [] (p # ps) = False"
| "HasPrefix (c # cs) (p # ps) = (c = p \<and> HasPrefix cs ps)"

fun Contains :: "string \<Rightarrow> string \<Rightarrow> bool" where
  "Contains [] sub = (sub = [])"
| "Contains (c # cs) sub = (HasPrefix (c # cs) sub \<or> Contains cs sub)"

text \<open>
  \<open>strings.TrimSpace\<close> removes leading and trailing Unicode white space. On the UTF-8
  bytes these are the six ASCII characters tab, line feed, vertical tab, form feed,
  carriage return and space, the two-byte encodings of U+0085 and U+00A0 and the
  three-byte encodings of U+1680, U+2000 to U+200A, U+2028, U+2029, U+202F, U+205F and
  U+3000. A byte sequence that does not decode to one of these runes stops the trimming.
\<close>

definition asciiSpace :: "char \<Rightarrow> bool" where
  "asciiSpace c = (c = CHR 0x09 \<or> c = CHR 0x0A \<or> c = CHR 0x0B \<or> c = CHR 0x0C
                   \<or> c = CHR 0x0D \<or> c = CHR 0x20)"

definition space2 :: "char \<Rightarrow> char \<Rightarrow> bool" where
  "space2 a b = (a = CHR 0xC2 \<and> (b = CHR 0x85 \<or> b = CHR 0xA0))"

definition space3 :: "char \<Rightarrow> char \<Rightarrow> char \<Rightarrow> bool" where
  "space3 a b c =
     ((a = CHR 0xE1 \<and> b = CHR 0x9A \<and> c = CHR 0x80)
      \<or> (a = CHR 0xE2 \<and> b = CHR 0x80
          \<and> ((128::nat) \<le> of_char c \<and> (of_char c :: nat) \<le> 138
              \<or> c = CHR 0xA8 \<or> c = CHR 0xA9 \<or> c = CHR 0xAF))
      \<or> (a = CHR 0xE2 \<and> b = CHR 0x81 \<and> c = CHR 0x9F)
      \<or> (a = CHR 0xE3 \<and> b = CHR 0x80 \<and> c = CHR 0x80))"

text \<open>
  \<open>trimLeading\<close> drops white-space runes from the front; the two predicates say which
  two-byte and three-byte sequences are white space, so that the same function read on
  the reversed string trims the end.
\<close>

fun trimLeading ::
  "(char \<Rightarrow> char \<Rightarrow> bool) \<Rightarrow> (char \<Rightarrow> char \<Rightarrow> char \<Rightarrow> bool) \<Rightarrow> string \<Rightarrow> string" where
  "trimLeading p2 p3 (a # b # c # s) =
     (if asciiSpace a then trimLeading p2 p3 (b # c # s)
      else if p2 a b then trimLeading p2 p3 (c # s)
      else if p3 a b c then trimLeading p2 p3 s
      else a # b # c # s)"
| "trimLeading p2 p3 [a, b] =
     (if asciiSpace a then trimLeading p2 p3 [b]
      else if p2 a b then []
      else [a, b])"
| "trimLeading p2 p3 [a] = (if asciiSpace a then [] else [a])"
| "trimLeading p2 p3 [] = []"

definition TrimLeftSpace :: "string \<Rightarrow> string" where
  "TrimLeftSpace s = trimLeading space2 space3 s"

definition TrimRightSpace :: "string \<Rightarrow> string" where
  "TrimRightSpace s =
     rev (trimLeading (\<lambda>a b. space2 b a) (\<lambda>a b c. space3 c b a) (rev s))"

definition TrimSpace :: "string \<Rightarrow> string" where
  "TrimSpace s = TrimRightSpace (TrimLeftSpace s)"

text \<open>
  \<open>strings.ToLower\<close> on the ASCII letters. Go also maps letters outside ASCII by the
  Unicode tables; those bytes are left as they are here. The only caller compares the
  result with one-letter ASCII commands, and no rune outside ASCII lowers to one of
  these letters.
\<close>

definition lowerChar :: "char \<Rightarrow> char" where
  "lowerChar c =
     (case map_of (zip ''ABCDEFGHIJKLMNOPQRSTUVWXYZ'' ''abcdefghijklmnopqrstuvwxyz'') c of
        None \<Rightarrow> c
      | Some l \<Rightarrow> l)"

definition ToLower :: "string \<Rightarrow> string" where
  "ToLower s = map lowerChar s"

text \<open>\<open>strings.Split(s, "/")\<close>: the segments between slashes, never an empty list.\<close>

fun Split :: "string \<Rightarrow> string list" where
  "Split [] = [[]]"
| "Split (c # cs) =
     (if c = CHR ''/'' then [] # Split cs
      else (case Split cs of [] \<Rightarrow> [[c]] | seg # segs \<Rightarrow> (c # seg) # segs))"

text \<open>\<open>strings.ReplaceAll\<close> for a one-byte pattern.\<close>

definition ReplaceAll :: "string \<Rightarrow> char \<Rightarrow> string \<Rightarrow> string" where
  "ReplaceAll s old new = concat (map (\<lambda>c. if c = old then new else [c]) s)"

text \<open>The verb \<open>%d\<close> of \<open>fmt.Sprintf\<close>: a signed decimal numeral.\<close>

function digitsOf :: "nat \<Rightarrow> string" where
  "digitsOf n =
     (if n < 10 then [''0123456789'' ! n]
      else digitsOf (n div 10) @ [''0123456789'' ! (n mod 10)])"
  by pat_completeness auto
termination
  by (relation "measure (\<lambda>n. n)") auto

declare digitsOf.simps [simp del]

definition itoa :: "int \<Rightarrow> string" where
  "itoa i = (if i < 0 then ''-'' @ digitsOf (nat (- i)) else digitsOf (nat i))"

section \<open>Errors\<close>

text \<open>
  A Go \<open>error\<close> value. \<open>ApiError\<close> is a \<open>*googleapi.Error\<close> with its status code and
  the text its \<open>Error()\<close> method renders; \<open>ErrorString\<close> is any other error with its text
  (a network failure, or \<open>fmt.Errorf\<close> without \<open>%w\<close>); \<open>Errorf pre err post\<close> is
  \<open>fmt.Errorf\<close> wrapping \<open>err\<close> with \<open>%w\<close> between the texts \<open>pre\<close> and \<open>post\<close>;
  \<open>ContextError\<close> is \<open>ctx.Err()\<close> of a cancelled context.
\<close>

datatype error =
    ApiError int string
  | ErrorString string
  | Errorf string error string
  | ContextError

fun Error :: "error \<Rightarrow> string" where
  "Error (ApiError code text) = text"
| "Error (ErrorString text) = text"
| "Error (Errorf pre err post) = pre @ Error err @ post"
| "Error ContextError = ''context canceled''"

section \<open>Package classifier\<close>

subsection \<open>The classification cache\<close>

text \<open>
  \<open>Suggestion\<close> of package classifier. \<open>Confidence\<close> is a \<open>float64\<close> in the source; the
  code modelled here only stores it and writes the constant 0 into it.
\<close>

record Suggestion =
  Filename :: string
  SuggestedFolder :: string
  SuggestedName :: string
  Reason :: string
  Confidence :: real
  NeedsContent :: bool

text \<open>
  \<open>Cache\<close> holds \<open>items map[string]*Suggestion\<close>. A \<open>*Suggestion\<close> is a nullable
  pointer, modelled as \<open>Suggestion option\<close> (\<open>None\<close> is \<open>nil\<close>); the Go map is a
  partial function from keys to stored pointers. The mutex only serialises callers and
  has no sequential effect.
\<close>

record Cache =
  items :: "string \<rightharpoonup> Suggestion option"

definition NewCache :: Cache where
  "NewCache = \<lparr> items = Map.empty \<rparr>"

text \<open>\<open>Get\<close> returns \<open>c.items[key]\<close>: the zero value \<open>nil\<close> when the key is absent.\<close>

definition Get :: "Cache \<Rightarrow> string \<Rightarrow> Suggestion option" where
  "Get c key = (case items c key of None \<Rightarrow> None | Some p \<Rightarrow> p)"

definition Set :: "Cache \<Rightarrow> string \<Rightarrow> Suggestion option \<Rightarrow> Cache" where
  "Set c key suggestion = c\<lparr> items := (items c)(key \<mapsto> suggestion) \<rparr>"

definition CacheKey :: "string \<Rightarrow> string \<Rightarrow> string" where
  "CacheKey name mimeType = name @ ''|'' @ mimeType"

subsection \<open>The classifier\<close>

record FileMetadata =
  meta_Name :: string
  meta_MimeType :: string
  meta_Size :: int
  meta_CreatedTime :: string
  meta_ModifiedTime :: string

text \<open>
  The response of the generative model as far as \<open>parseResponse\<close> reads it: a list of
  candidates, each with a content that is \<open>nil\<close> or a list of parts, a part being a text or
  something else.
\<close>

datatype Part = Text string | OtherPart

datatype Candidate = Candidate "Part list option"

text \<open>
  \<open>Classifier\<close> stands for the receiver \<open>c\<close>: what its model answers to a prompt, given
  the prompts sent before (\<open>nil\<close> or a response, or an error), and what \<open>json.Unmarshal\<close>
  makes of a text, into a slice of suggestions and into one suggestion. The state
  threaded through the classifier's functions is the list of prompts sent so far.
\<close>

record Classifier =
  GenerateContent :: "string list \<Rightarrow> string \<Rightarrow> error + Candidate list option"
  Unmarshal_slice :: "string \<Rightarrow> error + Suggestion list"
  Unmarshal_single :: "string \<Rightarrow> error + Suggestion"

abbreviation (input) a_acute :: string where "a_acute \<equiv> [CHR 0xC3, CHR 0xA1]"
abbreviation (input) a_tilde :: string where "a_tilde \<equiv> [CHR 0xC3, CHR 0xA3]"
abbreviation (input) c_cedilla :: string where "c_cedilla \<equiv> [CHR 0xC3, CHR 0xA7]"
abbreviation (input) e_acute :: string where "e_acute \<equiv> [CHR 0xC3, CHR 0xA9]"
abbreviation (input) i_acute :: string where "i_acute \<equiv> [CHR 0xC3, CHR 0xAD]"
abbreviation (input) u_acute :: string where "u_acute \<equiv> [CHR 0xC3, CHR 0xBA]"

definition parseResponse :: "Classifier \<Rightarrow> Candidate list option \<Rightarrow> error + Suggestion list" where
  "parseResponse c resp =
     (case resp of
        None \<Rightarrow> Inl (ErrorString ''resposta vazia da IA'')
      | Some [] \<Rightarrow> Inl (ErrorString ''resposta vazia da IA'')
      | Some (Candidate content # others) \<Rightarrow>
          (case content of
             None \<Rightarrow> Inl (ErrorString (''conte'' @ u_acute @ ''do vazio na resposta''))
           | Some [] \<Rightarrow> Inl (ErrorString (''conte'' @ u_acute @ ''do vazio na resposta''))
           | Some (OtherPart # parts) \<Rightarrow>
               Inl (ErrorString (''resposta n'' @ a_tilde @ ''o '' @ e_acute @ '' texto''))
           | Some (Text text # parts) \<Rightarrow>
               (let jsonStr = TrimSpace text in
                case Unmarshal_slice c jsonStr of
                  Inr suggestions \<Rightarrow> Inr suggestions
                | Inl err \<Rightarrow>
                    (case Unmarshal_single c jsonStr of
                       Inl err2 \<Rightarrow>
                         Inl (Errorf ''erro ao parsear JSON: '' err (newline @ ''Resposta: '' @ jsonStr))
                     | Inr single \<Rightarrow> Inr [single]))))"

text \<open>
  The block naming the folders that exist already; each of the three prompt builders
  writes it inline, under a title of its own.
\<close>

definition existingFoldersBlock :: "string \<Rightarrow> string list \<Rightarrow> string" where
  "existingFoldersBlock title existingFolders =
     (if length existingFolders > 0
      then title @ concat (map (\<lambda>f. ''- '' @ f @ newline) existingFolders) @ newline
      else [])"

definition buildClassificationPrompt :: "FileMetadata list \<Rightarrow> string list \<Rightarrow> string" where
  "buildClassificationPrompt files existingFolders =
     ''Classifique os seguintes arquivos e sugira a melhor pasta para cada um.'' @ newline @ newline
     @ existingFoldersBlock
         (''Pastas j'' @ a_acute @ '' existentes (prefira usar estas quando fizer sentido):'' @ newline)
         existingFolders
     @ ''Arquivos para classificar:'' @ newline
     @ concat (map (\<lambda>(i, f).
           digitsOf (i + 1) @ ''. Nome: '' @ meta_Name f @ '' | Tipo: '' @ meta_MimeType f
           @ '' | Tamanho: '' @ itoa (meta_Size f) @ '' bytes | Criado: '' @ meta_CreatedTime f @ newline)
         (enumerate 0 files))
     @ newline @ ''Retorne um array JSON com a classifica'' @ c_cedilla @ a_tilde @ ''o de cada arquivo.''"

definition buildContentPrompt :: "FileMetadata \<Rightarrow> string \<Rightarrow> string list \<Rightarrow> string" where
  "buildContentPrompt file content existingFolders =
     ''Classifique o seguinte arquivo com base no nome, metadados E conte'' @ u_acute @ ''do.''
       @ newline @ newline
     @ existingFoldersBlock (''Pastas j'' @ a_acute @ '' existentes:'' @ newline) existingFolders
     @ ''Arquivo: '' @ meta_Name file @ newline @ ''Tipo: '' @ meta_MimeType file @ newline
       @ ''Tamanho: '' @ itoa (meta_Size file) @ '' bytes'' @ newline @ newline
     @ ''Conte'' @ u_acute @ ''do (primeiros caracteres):'' @ newline @ ''---'' @ newline
       @ (if length content > 2000 then take 2000 content @ ''... [truncado]'' else content)
       @ newline @ ''---'' @ newline
     @ newline @ ''Retorne um array JSON com a classifica'' @ c_cedilla @ a_tilde @ ''o.''"

definition buildDescriptionPrompt :: "FileMetadata \<Rightarrow> string \<Rightarrow> string list \<Rightarrow> string" where
  "buildDescriptionPrompt file userDescription existingFolders =
     ''Classifique o seguinte arquivo com base no nome, metadados E descri'' @ c_cedilla @ a_tilde
       @ ''o do usu'' @ a_acute @ ''rio.'' @ newline @ newline
     @ existingFoldersBlock (''Pastas j'' @ a_acute @ '' existentes:'' @ newline) existingFolders
     @ ''Arquivo: '' @ meta_Name file @ newline @ ''Tipo: '' @ meta_MimeType file @ newline
       @ ''Tamanho: '' @ itoa (meta_Size file) @ '' bytes'' @ newline @ newline
     @ ''Descri'' @ c_cedilla @ a_tilde @ ''o do usu'' @ a_acute @ ''rio:'' @ newline @ ''---'' @ newline
       @ userDescription @ newline @ ''---'' @ newline @ newline
     @ ''Com base nesta descri'' @ c_cedilla @ a_tilde
       @ ''o, sugira a melhor pasta e nome para o arquivo.'' @ newline
     @ newline @ ''Retorne um array JSON com a classifica'' @ c_cedilla @ a_tilde @ ''o.''"

text \<open>The suggestion returned when the model's answer holds no suggestion.\<close>

definition fallbackSuggestion :: "FileMetadata \<Rightarrow> Suggestion" where
  "fallbackSuggestion file =
     \<lparr> Filename = meta_Name file,
       SuggestedFolder = ''Outros'',
       SuggestedName = [],
       Reason = ''N'' @ a_tilde @ ''o foi poss'' @ i_acute @ ''vel classificar'',
       Confidence = 0,
       NeedsContent = False \<rparr>"

definition ClassifyBatch ::
  "Classifier \<Rightarrow> FileMetadata list \<Rightarrow> string list \<Rightarrow> string list
     \<Rightarrow> (error + Suggestion list) \<times> string list" where
  "ClassifyBatch c files existingFolders prompts =
     (let prompt = buildClassificationPrompt files existingFolders in
      case GenerateContent c prompts prompt of
        Inl err \<Rightarrow> (Inl (Errorf ''erro ao classificar arquivos: '' err []), prompts @ [prompt])
      | Inr resp \<Rightarrow>
          (case parseResponse c resp of
             Inl err \<Rightarrow>
               (Inl (Errorf (''erro ao parsear resposta da IA: '') err []), prompts @ [prompt])
           | Inr suggestions \<Rightarrow> (Inr suggestions, prompts @ [prompt])))"

definition ClassifySingle ::
  "Classifier \<Rightarrow> FileMetadata \<Rightarrow> string list \<Rightarrow> string list
     \<Rightarrow> (error + Suggestion) \<times> string list" where
  "ClassifySingle c file existingFolders prompts =
     (case ClassifyBatch c [file] existingFolders prompts of
        (Inl err, prompts') \<Rightarrow> (Inl err, prompts')
      | (Inr suggestions, prompts') \<Rightarrow>
          (if length suggestions = 0 then (Inr (fallbackSuggestion file), prompts')
           else (Inr (hd suggestions), prompts')))"

definition ClassifyWithContent ::
  "Classifier \<Rightarrow> FileMetadata \<Rightarrow> string \<Rightarrow> string list \<Rightarrow> string list
     \<Rightarrow> (error + Suggestion) \<times> string list" where
  "ClassifyWithContent c file content existingFolders prompts =
     (let prompt = buildContentPrompt file content existingFolders in
      case GenerateContent c prompts prompt of
        Inl err \<Rightarrow>
          (Inl (Errorf (''erro ao classificar com conte'' @ u_acute @ ''do: '') err []), prompts @ [prompt])
      | Inr resp \<Rightarrow>
          (case parseResponse c resp of
             Inl err \<Rightarrow> (Inl err, prompts @ [prompt])
           | Inr suggestions \<Rightarrow>
               (if length suggestions = 0 then (Inr (fallbackSuggestion file), prompts @ [prompt])
                else (Inr (hd suggestions), prompts @ [prompt]))))"

definition ClassifyWithDescription ::
  "Classifier \<Rightarrow> FileMetadata \<Rightarrow> string \<Rightarrow> string list \<Rightarrow> string list
     \<Rightarrow> (error + Suggestion) \<times> string list" where
  "ClassifyWithDescription c file userDescription existingFolders prompts =
     (let prompt = buildDescriptionPrompt file userDescription existingFolders in
      case GenerateContent c prompts prompt of
        Inl err \<Rightarrow>
          (Inl (Errorf (''erro ao classificar com descri'' @ c_cedilla @ a_tilde @ ''o: '') err []),
           prompts @ [prompt])
      | Inr resp \<Rightarrow>
          (case parseResponse c resp of
             Inl err \<Rightarrow> (Inl err, prompts @ [prompt])
           | Inr suggestions \<Rightarrow>
               (if length suggestions = 0 then (Inr (fallbackSuggestion file), prompts @ [prompt])
                else (Inr (hd suggestions), prompts @ [prompt]))))"

section \<open>Package drive\<close>

subsection \<open>Items and the remote service\<close>

record FileInfo =
  ID :: string
  Name :: string
  MimeType :: string
  Parents :: "string list"
  CreatedTime :: string
  ModifiedTime :: string
  Size :: int

definition IsFolder :: "FileInfo \<Rightarrow> bool" where
  "IsFolder f = (MimeType f = ''application/vnd.google-apps.folder'')"

text \<open>The fields of the API's \<open>drive.File\<close> that the code reads.\<close>

record File =
  Id :: string
  file_Name :: string
  file_MimeType :: string
  file_Parents :: "string list"
  file_CreatedTime :: string
  file_ModifiedTime :: string
  file_Size :: int

text \<open>
  The requests the code sends: \<open>Files.List\<close> with its query, page size and page token
  (empty when none is set), \<open>Files.Create\<close> with the name, content type and parents of the
  new item, and \<open>Files.Update\<close> with the file identifier, the new name (when a file body
  is sent), the parent to add and the parent to remove.
\<close>

datatype api_call =
    ListCall string int string
  | CreateCall string string "string list"
  | UpdateCall string "string option" "string option" "string option"

text \<open>
  What the backoff policy and the context do after a failed attempt: the wait elapses
  (\<open>Wait\<close>), the policy's elapsed-time budget is used up (\<open>Stop\<close>), or the context is
  cancelled (\<open>Done\<close>). An \<open>ExponentialBackOff\<close> with a \<open>MaxElapsedTime\<close> allows finitely
  many waits, so a schedule is a list; when it is used up the policy stops.
\<close>

datatype tick = Wait | Stop | Done

text \<open>
  \<open>Service\<close> stands for \<open>srv\<close>, the remote store seen from the client. Each request is
  answered as a function of the requests sent before, so the state threaded through the
  functions of this package is the list of requests sent so far. \<open>listing\<close> is the
  outcome of \<open>listFilesInFolder\<close> for a folder (the paged and retried listing as a
  whole) and \<open>folderListing\<close> the outcome of \<open>ListFolders\<close>; \<open>backoff\<close> is the schedule a
  retry loop started now would meet.
\<close>

record Service =
  Files_List :: "api_call list \<Rightarrow> string \<Rightarrow> int \<Rightarrow> string \<Rightarrow> error + File list \<times> string"
  Files_Create :: "api_call list \<Rightarrow> string \<Rightarrow> string \<Rightarrow> string list \<Rightarrow> error + File"
  Files_Update ::
    "api_call list \<Rightarrow> string \<Rightarrow> string option \<Rightarrow> string option \<Rightarrow> string option \<Rightarrow> error + File"
  listing :: "api_call list \<Rightarrow> string \<Rightarrow> error + FileInfo list"
  folderListing :: "api_call list \<Rightarrow> string \<Rightarrow> error + FileInfo list"
  backoff :: "api_call list \<Rightarrow> tick list"

subsection \<open>The retry executor\<close>

text \<open>
  What an operation handed to \<open>backoff.Retry\<close> returns: \<open>nil\<close>, an error to retry, or
  an error wrapped by \<open>backoff.Permanent\<close>.
\<close>

datatype attempt = Succeeded | Retryable error | PermanentError error

text \<open>
  \<open>backoff.Retry\<close> is the loop of the library github.com/cenkalti/backoff/v4, which is
  not part of the repository; it is written out from the library's documented behaviour.
  It runs the operation; \<open>nil\<close> ends it with \<open>nil\<close>; a permanent error ends it at once
  with the wrapped error; any other error asks the policy for the next wait and, unless
  the policy stops or the context is cancelled, runs the operation again.
\<close>

fun Retry :: "('s \<Rightarrow> attempt \<times> 's) \<Rightarrow> tick list \<Rightarrow> 's \<Rightarrow> error option \<times> 's" where
  "Retry operation [] s =
     (case operation s of
        (Succeeded, s') \<Rightarrow> (None, s')
      | (PermanentError err, s') \<Rightarrow> (Some err, s')
      | (Retryable err, s') \<Rightarrow> (Some err, s'))"
| "Retry operation (t # ts) s =
     (case operation s of
        (Succeeded, s') \<Rightarrow> (None, s')
      | (PermanentError err, s') \<Rightarrow> (Some err, s')
      | (Retryable err, s') \<Rightarrow>
          (case t of
             Wait \<Rightarrow> Retry operation ts s'
           | Stop \<Rightarrow> (Some err, s')
           | Done \<Rightarrow> (Some ContextError, s')))"

subsection \<open>Listing\<close>

text \<open>
  The operation that \<open>listFilesInFolder\<close> retries for one page. It sets the captured
  variable \<open>result\<close>, so the state of the retry is that variable with the requests sent.
\<close>

definition listFilesInFolder_operation ::
  "Service \<Rightarrow> string \<Rightarrow> string
     \<Rightarrow> (File list \<times> string) option \<times> api_call list
     \<Rightarrow> attempt \<times> (File list \<times> string) option \<times> api_call list" where
  "listFilesInFolder_operation srv folderID pageToken st =
     (let calls = snd st;
          query = apos @ folderID @ apos @ '' in parents and trashed = false'';
          calls' = calls @ [ListCall query 100 pageToken] in
      case Files_List srv calls query 100 pageToken of
        Inl err \<Rightarrow>
          (case err of
             ApiError code text \<Rightarrow>
               if code = 500 \<or> code = 503 \<or> code = 429 then (Retryable err, None, calls')
               else (PermanentError (Errorf ''erro ao listar arquivos: '' err []), None, calls')
           | _ \<Rightarrow> (PermanentError (Errorf ''erro ao listar arquivos: '' err []), None, calls'))
      | Inr result \<Rightarrow> (Succeeded, Some result, calls'))"

text \<open>One turn of the paging loop of \<open>listFilesInFolder\<close>: the retried fetch of a page.\<close>

definition listFilesInFolder_page ::
  "Service \<Rightarrow> string \<Rightarrow> string \<Rightarrow> api_call list
     \<Rightarrow> error option \<times> (File list \<times> string) option \<times> api_call list" where
  "listFilesInFolder_page srv folderID pageToken calls =
     Retry (listFilesInFolder_operation srv folderID pageToken) (backoff srv calls) (None, calls)"

definition ListAllFiles :: "(string \<Rightarrow> error + FileInfo list) \<Rightarrow> error + FileInfo list" where
  "ListAllFiles listFilesInFolder = listFilesInFolder ''root''"

definition errMaxDepth :: error where
  "errMaxDepth =
     ErrorString (''profundidade m'' @ a_acute @ ''xima de pastas excedida (20 n'' @ i_acute @ ''veis)'')"

text \<open>
  The recursive listing, over the outcome of \<open>listFilesInFolder\<close> for each folder
  identifier. A failed listing of a subfolder is logged and the loop goes on.
\<close>

function listAllFilesRecursiveWithDepth ::
  "(string \<Rightarrow> error + FileInfo list) \<Rightarrow> string \<Rightarrow> int \<Rightarrow> error + FileInfo list" where
  "listAllFilesRecursiveWithDepth listFilesInFolder folderID depth =
     (if depth > 20 then Inl errMaxDepth
      else case listFilesInFolder folderID of
             Inl err \<Rightarrow> Inl err
           | Inr files \<Rightarrow>
               Inr (fold (\<lambda>f allFiles.
                      if IsFolder f
                      then (case listAllFilesRecursiveWithDepth listFilesInFolder (ID f) (depth + 1) of
                              Inl err \<Rightarrow> allFiles
                            | Inr subFiles \<Rightarrow> allFiles @ subFiles)
                      else allFiles @ [f]) files []))"
  by pat_completeness auto
termination
  by (relation "measure (\<lambda>(listFilesInFolder, folderID, depth). nat (21 - depth))") auto

declare listAllFilesRecursiveWithDepth.simps [simp del]

definition ListAllFilesRecursive ::
  "(string \<Rightarrow> error + FileInfo list) \<Rightarrow> string \<Rightarrow> error + FileInfo list" where
  "ListAllFilesRecursive listFilesInFolder folderID =
     listAllFilesRecursiveWithDepth listFilesInFolder folderID 0"

subsection \<open>Folders\<close>

definition escapeDriveQuery :: "string \<Rightarrow> string" where
  "escapeDriveQuery s =
     ReplaceAll (ReplaceAll s (CHR 0x5C) [CHR 0x5C, CHR 0x5C]) (CHR 0x27) [CHR 0x5C, CHR 0x27]"

definition FindFolderByName ::
  "Service \<Rightarrow> string \<Rightarrow> string \<Rightarrow> api_call list \<Rightarrow> (error + FileInfo option) \<times> api_call list" where
  "FindFolderByName srv name parentID calls =
     (let query = ''name = '' @ apos @ escapeDriveQuery name @ apos @ '' and '' @ apos @ parentID @ apos
                  @ '' in parents and mimeType = '' @ apos @ ''application/vnd.google-apps.folder''
                  @ apos @ '' and trashed = false'';
          calls' = calls @ [ListCall query 1 []] in
      case Files_List srv calls query 1 [] of
        Inl err \<Rightarrow> (Inl (Errorf (''erro ao buscar pasta '' @ apos @ name @ apos @ '': '') err []), calls')
      | Inr (files, nextPageToken) \<Rightarrow>
          (if length files = 0 then (Inr None, calls')
           else (let f = hd files in
                 (Inr (Some \<lparr> ID = Id f, Name = file_Name f, MimeType = file_MimeType f,
                              Parents = file_Parents f, CreatedTime = [], ModifiedTime = [],
                              Size = 0 \<rparr>), calls'))))"

definition CreateFolder ::
  "Service \<Rightarrow> string \<Rightarrow> string \<Rightarrow> api_call list \<Rightarrow> (error + FileInfo) \<times> api_call list" where
  "CreateFolder srv name parentID calls =
     (let calls' = calls @ [CreateCall name ''application/vnd.google-apps.folder'' [parentID]] in
      case Files_Create srv calls name ''application/vnd.google-apps.folder'' [parentID] of
        Inl err \<Rightarrow> (Inl (Errorf (''erro ao criar pasta '' @ apos @ name @ apos @ '': '') err []), calls')
      | Inr created \<Rightarrow>
          (Inr \<lparr> ID = Id created, Name = file_Name created, MimeType = file_MimeType created,
                 Parents = file_Parents created, CreatedTime = [], ModifiedTime = [], Size = 0 \<rparr>,
           calls'))"

definition FindOrCreateFolder ::
  "Service \<Rightarrow> string \<Rightarrow> string \<Rightarrow> api_call list \<Rightarrow> (error + FileInfo) \<times> api_call list" where
  "FindOrCreateFolder srv name parentID calls =
     (case FindFolderByName srv name parentID calls of
        (Inl err, calls') \<Rightarrow> (Inl err, calls')
      | (Inr (Some existing), calls') \<Rightarrow> (Inr existing, calls')
      | (Inr None, calls') \<Rightarrow> CreateFolder srv name parentID calls')"

text \<open>
  The loop of \<open>FindOrCreateNestedFolder\<close> over the segments of the path, with its
  variables \<open>currentParent\<close> and \<open>lastFolder\<close> (a pointer, \<open>nil\<close> at the start).
\<close>

fun FindOrCreateNestedFolder_loop ::
  "Service \<Rightarrow> string list \<Rightarrow> string \<Rightarrow> FileInfo option \<Rightarrow> api_call list
     \<Rightarrow> (error + FileInfo option) \<times> api_call list" where
  "FindOrCreateNestedFolder_loop srv [] currentParent lastFolder calls = (Inr lastFolder, calls)"
| "FindOrCreateNestedFolder_loop srv (p # parts) currentParent lastFolder calls =
     (let part = TrimSpace p in
      if part = [] then FindOrCreateNestedFolder_loop srv parts currentParent lastFolder calls
      else (case FindOrCreateFolder srv part currentParent calls of
              (Inl err, calls') \<Rightarrow>
                (Inl (Errorf (''erro ao criar/encontrar pasta '' @ apos @ part @ apos @ '': '') err []),
                 calls')
            | (Inr folder, calls') \<Rightarrow>
                FindOrCreateNestedFolder_loop srv parts (ID folder) (Some folder) calls'))"

definition FindOrCreateNestedFolder ::
  "Service \<Rightarrow> string \<Rightarrow> string \<Rightarrow> api_call list \<Rightarrow> (error + FileInfo option) \<times> api_call list" where
  "FindOrCreateNestedFolder srv path rootParentID calls =
     FindOrCreateNestedFolder_loop srv (Split path) rootParentID None calls"

subsection \<open>Moving and renaming\<close>

definition isRetryable :: "error \<Rightarrow> bool" where
  "isRetryable err =
     ((case err of
         ApiError code text \<Rightarrow> code = 429 \<or> code = 500 \<or> code = 502 \<or> code = 503 \<or> code = 504
       | _ \<Rightarrow> False)
      \<or> Contains (Error err) ''connection reset''
      \<or> Contains (Error err) ''connection refused''
      \<or> Contains (Error err) ''timeout'')"

text \<open>
  The operation that \<open>MoveFile\<close>, \<open>RenameFile\<close> and \<open>MoveAndRenameFile\<close> retry: one
  \<open>Files.Update\<close> request, its error sorted by \<open>isRetryable\<close>. The three functions
  write the same closure around requests that differ in the name and the parents sent.
\<close>

definition update_operation ::
  "Service \<Rightarrow> string \<Rightarrow> string option \<Rightarrow> string option \<Rightarrow> string option \<Rightarrow> api_call list
     \<Rightarrow> attempt \<times> api_call list" where
  "update_operation srv fileID name addParents removeParents calls =
     (let calls' = calls @ [UpdateCall fileID name addParents removeParents] in
      case Files_Update srv calls fileID name addParents removeParents of
        Inl err \<Rightarrow> (if isRetryable err then (Retryable err, calls') else (PermanentError err, calls'))
      | Inr file \<Rightarrow> (Succeeded, calls'))"

definition MoveFile ::
  "Service \<Rightarrow> string \<Rightarrow> string \<Rightarrow> string \<Rightarrow> api_call list \<Rightarrow> error option \<times> api_call list" where
  "MoveFile srv fileID newParentID oldParentID calls =
     (case Retry (update_operation srv fileID None (Some newParentID) (Some oldParentID))
             (backoff srv calls) calls of
        (Some err, calls') \<Rightarrow>
          (Some (Errorf (''erro ao mover arquivo '' @ apos @ fileID @ apos @ '': '') err []), calls')
      | (None, calls') \<Rightarrow> (None, calls'))"

definition RenameFile ::
  "Service \<Rightarrow> string \<Rightarrow> string \<Rightarrow> api_call list \<Rightarrow> error option \<times> api_call list" where
  "RenameFile srv fileID newName calls =
     (case Retry (update_operation srv fileID (Some newName) None None) (backoff srv calls) calls of
        (Some err, calls') \<Rightarrow>
          (Some (Errorf (''erro ao renomear arquivo '' @ apos @ fileID @ apos @ '': '') err []), calls')
      | (None, calls') \<Rightarrow> (None, calls'))"

definition MoveAndRenameFile ::
  "Service \<Rightarrow> string \<Rightarrow> string \<Rightarrow> string \<Rightarrow> string \<Rightarrow> api_call list
     \<Rightarrow> error option \<times> api_call list" where
  "MoveAndRenameFile srv fileID newName newParentID oldParentID calls =
     (case Retry (update_operation srv fileID (Some newName) (Some newParentID) (Some oldParentID))
             (backoff srv calls) calls of
        (Some err, calls') \<Rightarrow>
          (Some (Errorf (''erro ao mover e renomear arquivo '' @ apos @ fileID @ apos @ '': '') err []),
           calls')
      | (None, calls') \<Rightarrow> (None, calls'))"

section \<open>Package cli: the organize command\<close>

text \<open>
  \<open>runOrganize\<close> is modelled from its step 2 on: the API key and the authenticated
  service are there. The fields of the configuration that it reads:
\<close>

record Config =
  BackupFolder :: string
  DryRun :: bool

text \<open>
  The context is cancelled by a signal handler that runs beside the main flow. What the
  two loops see when they poll \<open>ctx.Err()\<close> is given per turn of each loop.
\<close>

record Context =
  backupCancelled :: "nat \<Rightarrow> bool"
  organizeCancelled :: "nat \<Rightarrow> bool"

text \<open>
  The variables of the run: the requests sent to the store and the prompts sent to the
  model so far, the cache, the folder names handed to the model, and the two counters.
\<close>

record vars =
  requests :: "api_call list"
  prompts_sent :: "string list"
  cache :: Cache
  existingFolderNames :: "string list"
  organized :: int
  skipped :: int

text \<open>
  \<open>reader.ReadString\<close> on the standard input, given as its remaining lines. At the end
  of the input it returns the empty string with an error that the callers drop.
\<close>

definition ReadString :: "string list \<Rightarrow> string \<times> string list" where
  "ReadString stdin = (case stdin of [] \<Rightarrow> ([], []) | line # rest \<Rightarrow> (line, rest))"

text \<open>The \<open>FileMetadata\<close> literal built from a file, written twice in the source.\<close>

definition metadataOf :: "FileInfo \<Rightarrow> FileMetadata" where
  "metadataOf f =
     \<lparr> meta_Name = Name f, meta_MimeType = MimeType f, meta_Size = Size f,
       meta_CreatedTime = CreatedTime f, meta_ModifiedTime = ModifiedTime f \<rparr>"

text \<open>
  The name choice written inline in the cases m, r, n and c: the suggested name when
  there is one and it differs from the file's name, the file's name otherwise.
\<close>

definition suggestedOrOriginalName :: "Suggestion \<Rightarrow> FileInfo \<Rightarrow> string" where
  "suggestedOrOriginalName suggestion f =
     (if SuggestedName suggestion \<noteq> [] \<and> SuggestedName suggestion \<noteq> Name f
      then SuggestedName suggestion else Name f)"

text \<open>
  The prompt loop for one file (the inner \<open>for\<close> with its \<open>switch\<close>). It ends with a
  target folder and name (the \<open>break\<close> after the switch), with the file skipped
  (\<open>continue fileLoop\<close>) or with the run ended (\<open>return nil\<close>); a plain \<open>continue\<close>
  starts the prompt loop again for the same file.
\<close>

datatype decision = Target string string | SkipFile | QuitRun

function decide ::
  "Classifier \<Rightarrow> FileInfo \<Rightarrow> Suggestion \<Rightarrow> vars \<Rightarrow> string list \<Rightarrow> decision \<times> vars \<times> string list" where
  "decide cls f suggestion v stdin =
     (let (line, stdin1) = ReadString stdin;
          input = TrimSpace (ToLower line) in
      if input = ''m'' \<or> input = [] then
        (Target (SuggestedFolder suggestion) (suggestedOrOriginalName suggestion f), v, stdin1)
      else if input = ''d'' then
        (let (line2, stdin2) = ReadString stdin1;
             description = TrimSpace line2 in
         if description = [] then decide cls f suggestion v stdin2
         else (case ClassifyWithDescription cls (metadataOf f) description (existingFolderNames v)
                      (prompts_sent v) of
                 (Inl err, prompts') \<Rightarrow> decide cls f suggestion (v\<lparr>prompts_sent := prompts'\<rparr>) stdin2
               | (Inr newSuggestion, prompts') \<Rightarrow>
                   decide cls f newSuggestion
                     (v\<lparr>prompts_sent := prompts',
                        cache := Set (cache v) (CacheKey (Name f) (MimeType f)) (Some newSuggestion)\<rparr>)
                     stdin2))
      else if input = ''r'' then
        (let (line2, stdin2) = ReadString stdin1;
             newFolder = TrimSpace line2 in
         (Target (if newFolder = [] then SuggestedFolder suggestion else newFolder)
            (suggestedOrOriginalName suggestion f), v, stdin2))
      else if input = ''n'' then
        (let defaultName = suggestedOrOriginalName suggestion f;
             (line2, stdin2) = ReadString stdin1;
             newName = TrimSpace line2 in
         (Target (SuggestedFolder suggestion) (if newName = [] then defaultName else newName),
          v, stdin2))
      else if input = ''c'' then
        (let (line2, stdin2) = ReadString stdin1;
             customName = TrimSpace line2 in
         if customName = [] then decide cls f suggestion (v\<lparr>skipped := skipped v + 1\<rparr>) stdin2
         else (Target customName (suggestedOrOriginalName suggestion f), v, stdin2))
      else if input = ''p'' then (SkipFile, v\<lparr>skipped := skipped v + 1\<rparr>, stdin1)
      else if input = ''q'' then (QuitRun, v, stdin1)
      else (SkipFile, v\<lparr>skipped := skipped v + 1\<rparr>, stdin1))"
  by pat_completeness auto
termination
proof (relation "measure (\<lambda>(cls, f, suggestion, v, stdin). length stdin)")
  show "wf (measure (\<lambda>(cls, f, suggestion, v, stdin). length stdin))" by simp
qed (auto simp: ReadString_def TrimSpace_def TrimLeftSpace_def TrimRightSpace_def ToLower_def
       split: list.splits)

declare decide.simps [simp del]

text \<open>
  How the run ends: the file loop is exhausted, there is nothing to organize, the user
  quits, the context is cancelled, an error is returned, or a \<open>nil\<close> pointer is
  dereferenced (a run-time panic).
\<close>

datatype exit = Completed | NothingToOrganize | Quit | Cancelled | Failed error | NilDereference

datatype flow = NextFile | Return exit

text \<open>The end of a turn of the file loop: the target folder is resolved and the file moved.\<close>

definition moveToTarget ::
  "Service \<Rightarrow> FileInfo option \<Rightarrow> FileInfo \<Rightarrow> string \<Rightarrow> string \<Rightarrow> vars \<Rightarrow> flow \<times> vars" where
  "moveToTarget srv backupFolder f targetFolder targetName v =
     (case FindOrCreateNestedFolder srv targetFolder ''root'' (requests v) of
        (Inl err, calls1) \<Rightarrow> (NextFile, v\<lparr>requests := calls1, skipped := skipped v + 1\<rparr>)
      | (Inr destFolder, calls1) \<Rightarrow>
          (case backupFolder of
             None \<Rightarrow> (Return NilDereference, v\<lparr>requests := calls1\<rparr>)
           | Some bf \<Rightarrow>
               (let oldParent = (if length (Parents f) > 0 then hd (Parents f) else ID bf) in
                case destFolder of
                  None \<Rightarrow> (Return NilDereference, v\<lparr>requests := calls1\<rparr>)
                | Some dest \<Rightarrow>
                    (case (if targetName \<noteq> Name f
                           then MoveAndRenameFile srv (ID f) targetName (ID dest) oldParent calls1
                           else MoveFile srv (ID f) (ID dest) oldParent calls1) of
                       (Some err, calls2) \<Rightarrow>
                         (NextFile, v\<lparr>requests := calls2, skipped := skipped v + 1\<rparr>)
                     | (None, calls2) \<Rightarrow>
                         (NextFile,
                          v\<lparr>requests := calls2,
                            existingFolderNames :=
                              (if targetFolder \<in> set (existingFolderNames v)
                               then existingFolderNames v
                               else existingFolderNames v @ [targetFolder]),
                            organized := organized v + 1\<rparr>)))))"

text \<open>One turn of the file loop.\<close>

definition organizeFile ::
  "Service \<Rightarrow> Classifier \<Rightarrow> Context \<Rightarrow> FileInfo option \<Rightarrow> nat \<Rightarrow> FileInfo \<Rightarrow> vars \<Rightarrow> string list
     \<Rightarrow> flow \<times> vars \<times> string list" where
  "organizeFile srv cls ctx backupFolder i f v stdin =
     (if organizeCancelled ctx i then (Return Cancelled, v, stdin)
      else
        (let cacheKey = CacheKey (Name f) (MimeType f) in
         case (case Get (cache v) cacheKey of
                 Some suggestion \<Rightarrow> (Inr suggestion, v)
               | None \<Rightarrow>
                   (case ClassifySingle cls (metadataOf f) (existingFolderNames v) (prompts_sent v) of
                      (Inl err, prompts') \<Rightarrow> (Inl err, v\<lparr>prompts_sent := prompts'\<rparr>)
                    | (Inr suggestion, prompts') \<Rightarrow>
                        (Inr suggestion,
                         v\<lparr>prompts_sent := prompts',
                           cache := Set (cache v) cacheKey (Some suggestion)\<rparr>))) of
           (Inl err, v1) \<Rightarrow> (NextFile, v1\<lparr>skipped := skipped v1 + 1\<rparr>, stdin)
         | (Inr suggestion, v1) \<Rightarrow>
             (case decide cls f suggestion v1 stdin of
                (SkipFile, v2, stdin2) \<Rightarrow> (NextFile, v2, stdin2)
              | (QuitRun, v2, stdin2) \<Rightarrow> (Return Quit, v2, stdin2)
              | (Target targetFolder targetName, v2, stdin2) \<Rightarrow>
                  (case moveToTarget srv backupFolder f targetFolder targetName v2 of
                     (fl, v3) \<Rightarrow> (fl, v3, stdin2)))))"

fun fileLoop ::
  "Service \<Rightarrow> Classifier \<Rightarrow> Context \<Rightarrow> FileInfo option \<Rightarrow> nat \<Rightarrow> FileInfo list \<Rightarrow> vars \<Rightarrow> string list
     \<Rightarrow> exit \<times> vars \<times> string list" where
  "fileLoop srv cls ctx backupFolder i [] v stdin = (Completed, v, stdin)"
| "fileLoop srv cls ctx backupFolder i (f # fs) v stdin =
     (case organizeFile srv cls ctx backupFolder i f v stdin of
        (NextFile, v', stdin') \<Rightarrow> fileLoop srv cls ctx backupFolder (i + 1) fs v' stdin'
      | (Return e, v', stdin') \<Rightarrow> (e, v', stdin'))"

text \<open>
  The two loops that fill \<open>filesToBackup\<close>: first the files, then the folders, leaving
  out what bears the name of the first segment of the backup path.
\<close>

definition selectFilesToBackup :: "FileInfo list \<Rightarrow> FileInfo list \<Rightarrow> string \<Rightarrow> FileInfo list" where
  "selectFilesToBackup files folders backupRootName =
     filter (\<lambda>f. \<not> (Name f = backupRootName \<and> IsFolder f)) files
     @ filter (\<lambda>f. \<not> (Name f = backupRootName)) folders"

text \<open>The loop that moves the root items under the backup folder; a failed move is logged.\<close>

fun backupLoop ::
  "Service \<Rightarrow> Context \<Rightarrow> FileInfo option \<Rightarrow> nat \<Rightarrow> FileInfo list \<Rightarrow> api_call list
     \<Rightarrow> exit option \<times> api_call list" where
  "backupLoop srv ctx backupFolder i [] calls = (None, calls)"
| "backupLoop srv ctx backupFolder i (f # fs) calls =
     (if backupCancelled ctx i
      then (Some (Failed (ErrorString (''opera'' @ c_cedilla @ a_tilde @ ''o cancelada''))), calls)
      else
        (let oldParent = (if length (Parents f) > 0 then hd (Parents f) else ''root'') in
         case backupFolder of
           None \<Rightarrow> (Some NilDereference, calls)
         | Some bf \<Rightarrow>
             (case MoveFile srv (ID f) (ID bf) oldParent calls of
                (err, calls') \<Rightarrow> backupLoop srv ctx backupFolder (i + 1) fs calls')))"

text \<open>
  The recursive listing of the backup folder, written twice in the source: in resume
  mode, and when the root holds nothing to move.
\<close>

definition listBackup ::
  "Service \<Rightarrow> FileInfo option \<Rightarrow> api_call list
     \<Rightarrow> (exit + FileInfo option \<times> FileInfo list) \<times> api_call list" where
  "listBackup srv backupFolder calls =
     (case backupFolder of
        None \<Rightarrow> (Inl NilDereference, calls)
      | Some bf \<Rightarrow>
          (case ListAllFilesRecursive (listing srv calls) (ID bf) of
             Inl err \<Rightarrow> (Inl (Failed (Errorf ''erro ao listar arquivos no backup: '' err [])), calls)
           | Inr backupFiles \<Rightarrow>
               (if length backupFiles = 0 then (Inl NothingToOrganize, calls)
                else (Inr (backupFolder, backupFiles), calls))))"

text \<open>Steps 2 and 3: the root listing, the backup folder and the moves under it.\<close>

definition stageBackup ::
  "Service \<Rightarrow> Context \<Rightarrow> Config \<Rightarrow> bool \<Rightarrow> api_call list
     \<Rightarrow> (exit + FileInfo option \<times> FileInfo list) \<times> api_call list" where
  "stageBackup srv ctx cfg resume calls =
     (case ListAllFiles (listing srv calls) of
        Inl err \<Rightarrow> (Inl (Failed (Errorf ''erro ao listar arquivos: '' err [])), calls)
      | Inr allFiles \<Rightarrow>
          (let files = filter (\<lambda>f. \<not> IsFolder f) allFiles;
               folders = filter IsFolder allFiles in
           case FindOrCreateNestedFolder srv (BackupFolder cfg) ''root'' calls of
             (Inl err, calls1) \<Rightarrow>
               (Inl (Failed (Errorf ''erro ao criar pasta de backup: '' err [])), calls1)
           | (Inr backupFolder, calls1) \<Rightarrow>
               (let backupRootName = hd (Split (BackupFolder cfg));
                    filesToBackup = selectFilesToBackup files folders backupRootName in
                if resume then listBackup srv backupFolder calls1
                else if length filesToBackup = 0 then listBackup srv backupFolder calls1
                else if \<not> DryRun cfg then
                  (case backupLoop srv ctx backupFolder 0 filesToBackup calls1 of
                     (Some e, calls2) \<Rightarrow> (Inl e, calls2)
                   | (None, calls2) \<Rightarrow> (Inr (backupFolder, filesToBackup), calls2))
                else (Inr (backupFolder, filesToBackup), calls1))))"

text \<open>
  Steps 4 and 5 after the staging; \<open>newClassifier\<close> is what \<open>NewClassifier\<close> returns.
\<close>

definition runOrganize ::
  "Service \<Rightarrow> error + Classifier \<Rightarrow> Context \<Rightarrow> Config \<Rightarrow> bool \<Rightarrow> string list
     \<Rightarrow> exit \<times> vars \<times> string list" where
  "runOrganize srv newClassifier ctx cfg resume stdin =
     (let v0 = \<lparr> requests = [], prompts_sent = [], cache = NewCache, existingFolderNames = [],
                 organized = 0, skipped = 0 \<rparr> in
      case stageBackup srv ctx cfg resume [] of
        (Inl e, calls1) \<Rightarrow> (e, v0\<lparr>requests := calls1\<rparr>, stdin)
      | (Inr (backupFolder, filesToBackup), calls1) \<Rightarrow>
          (case newClassifier of
             Inl err \<Rightarrow> (Failed err, v0\<lparr>requests := calls1\<rparr>, stdin)
           | Inr cls \<Rightarrow>
               (let existingFolderNames0 =
                      (case folderListing srv calls1 ''root'' of
                         Inl err \<Rightarrow> []
                       | Inr rootFolders \<Rightarrow> map Name rootFolders);
                    filesToOrganize = filter (\<lambda>f. \<not> IsFolder f) filesToBackup in
                if length filesToOrganize = 0
                then (NothingToOrganize, v0\<lparr>requests := calls1, existingFolderNames := existingFolderNames0\<rparr>, stdin)
                else fileLoop srv cls ctx backupFolder 0 filesToOrganize
                       (v0\<lparr>requests := calls1, existingFolderNames := existingFolderNames0\<rparr>) stdin)))"

section \<open>Reference notions and scenarios\<close>

text \<open>
  \<open>inFolderAt lst folderID d f\<close>: the file \<open>f\<close> lies in a folder \<open>d\<close> levels below the
  folder \<open>folderID\<close> (in that folder itself when \<open>d\<close> is 0), along listings that succeed.
\<close>

fun inFolderAt :: "(string \<Rightarrow> error + FileInfo list) \<Rightarrow> string \<Rightarrow> nat \<Rightarrow> FileInfo \<Rightarrow> bool" where
  "inFolderAt lst folderID 0 f =
     (case lst folderID of Inl err \<Rightarrow> False | Inr files \<Rightarrow> f \<in> set files \<and> \<not> IsFolder f)"
| "inFolderAt lst folderID (Suc d) f =
     (case lst folderID of
        Inl err \<Rightarrow> False
      | Inr files \<Rightarrow> \<exists>g \<in> set files. IsFolder g \<and> inFolderAt lst (ID g) d f)"

text \<open>An item with an identifier, a name, a content type and one parent.\<close>

definition item :: "string \<Rightarrow> string \<Rightarrow> string \<Rightarrow> string \<Rightarrow> FileInfo" where
  "item i n m p =
     \<lparr> ID = i, Name = n, MimeType = m, Parents = [p], CreatedTime = [], ModifiedTime = [], Size = 0 \<rparr>"

text \<open>
  A store that is a chain of \<open>n\<close> nested folders below the root folder \<open>[]\<close>: the folder
  at depth \<open>k\<close> has an identifier of \<open>k\<close> letters and holds the next folder alone; the
  folder at depth \<open>n\<close> holds one file.
\<close>

definition chainStore :: "nat \<Rightarrow> string \<Rightarrow> error + FileInfo list" where
  "chainStore n folderID =
     (if length folderID < n
      then Inr [item (CHR ''a'' # folderID) ''sub'' ''application/vnd.google-apps.folder'' folderID]
      else Inr [item ''deep'' ''deep.txt'' ''text/plain'' folderID])"

text \<open>
  The store answers the first \<open>k\<close> attempts of an update with errors that
  \<open>isRetryable\<close> accepts, the backoff policy grants a wait after each of them, and the
  next attempt is answered with the error \<open>err\<close> that \<open>isRetryable\<close> rejects.
\<close>

definition failsPermanentlyAfter ::
  "Service \<Rightarrow> api_call list \<Rightarrow> string \<Rightarrow> string option \<Rightarrow> string option \<Rightarrow> string option \<Rightarrow> nat \<Rightarrow> error \<Rightarrow> bool" where
  "failsPermanentlyAfter srv calls fileID name addParents removeParents k err =
     ((\<forall>j<k. \<exists>e. Files_Update srv (calls @ replicate j (UpdateCall fileID name addParents removeParents))
                     fileID name addParents removeParents = Inl e \<and> isRetryable e)
      \<and> Files_Update srv (calls @ replicate k (UpdateCall fileID name addParents removeParents))
            fileID name addParents removeParents = Inl err
      \<and> \<not> isRetryable err
      \<and> take k (backoff srv calls) = replicate k Wait)"

text \<open>
  A store that answers the first update with status 503 and every later one with 404,
  and every listing request with 502.
\<close>

definition flakyService :: Service where
  "flakyService =
     \<lparr> Files_List = (\<lambda>calls q pageSize pageToken. Inl (ApiError 502 ''googleapi: Error 502: Bad Gateway'')),
       Files_Create = (\<lambda>calls name mimeType parents. Inl (ApiError 403 ''googleapi: Error 403: Forbidden'')),
       Files_Update = (\<lambda>calls fileID name addParents removeParents.
          if length calls < 1 then Inl (ApiError 503 ''googleapi: Error 503: Service Unavailable'')
          else Inl (ApiError 404 ''googleapi: Error 404: File not found'')),
       listing = (\<lambda>calls folderID. Inr []),
       folderListing = (\<lambda>calls folderID. Inr []),
       backoff = (\<lambda>calls. [Wait, Wait, Wait, Stop]) \<rparr>"

text \<open>The file and the suggestion of the decision scenarios.\<close>

definition reportFile :: FileInfo where
  "reportFile =
     \<lparr> ID = ''file-1'', Name = ''relatorio.pdf'', MimeType = ''application/pdf'',
       Parents = [''backup-id''], CreatedTime = ''2024-01-01T00:00:00Z'',
       ModifiedTime = ''2024-01-02T00:00:00Z'', Size = 1024 \<rparr>"

definition reportSuggestion :: Suggestion where
  "reportSuggestion =
     \<lparr> Filename = ''relatorio.pdf'',
       SuggestedFolder = ''Trabalho/Relat'' @ [CHR 0xC3, CHR 0xB3] @ ''rios'',
       SuggestedName = ''relatorio.pdf'',
       Reason = ''documento de trabalho'',
       Confidence = 95 / 100,
       NeedsContent = False \<rparr>"

definition backupItem :: FileInfo where
  "backupItem =
     \<lparr> ID = ''backup-id'', Name = ''backup'', MimeType = ''application/vnd.google-apps.folder'',
       Parents = [''root''], CreatedTime = [], ModifiedTime = [], Size = 0 \<rparr>"

text \<open>A classifier whose model answers with a text that unmarshals to the given suggestions.\<close>

definition demoClassifier :: "Suggestion list \<Rightarrow> Classifier" where
  "demoClassifier answer =
     \<lparr> GenerateContent = (\<lambda>prompts prompt. Inr (Some [Candidate (Some [Text ''[]''])])),
       Unmarshal_slice = (\<lambda>text. Inr answer),
       Unmarshal_single = (\<lambda>text. Inl (ErrorString ''json: cannot unmarshal array'')) \<rparr>"

text \<open>
  A store whose root holds A.txt, B.pdf and the folder backup, in which every folder
  asked for exists, and in which every update succeeds.
\<close>

definition demoService :: Service where
  "demoService =
     \<lparr> Files_List = (\<lambda>calls q pageSize pageToken.
          if HasPrefix q (''name = '' @ apos @ ''backup'' @ apos)
          then Inr ([\<lparr> Id = ''backup-id'', file_Name = ''backup'',
                        file_MimeType = ''application/vnd.google-apps.folder'',
                        file_Parents = [''root''], file_CreatedTime = [], file_ModifiedTime = [],
                        file_Size = 0 \<rparr>], [])
          else Inr ([\<lparr> Id = ''dest-id'', file_Name = ''dest'',
                        file_MimeType = ''application/vnd.google-apps.folder'',
                        file_Parents = [''root''], file_CreatedTime = [], file_ModifiedTime = [],
                        file_Size = 0 \<rparr>], [])),
       Files_Create = (\<lambda>calls name mimeType parents.
          Inl (ApiError 403 ''googleapi: Error 403: Forbidden'')),
       Files_Update = (\<lambda>calls fileID name addParents removeParents.
          Inr \<lparr> Id = fileID, file_Name = [], file_MimeType = [], file_Parents = [],
                file_CreatedTime = [], file_ModifiedTime = [], file_Size = 0 \<rparr>),
       listing = (\<lambda>calls folderID.
          if folderID = ''root''
          then Inr [item ''a-id'' ''A.txt'' ''text/plain'' ''root'',
                    item ''b-id'' ''B.pdf'' ''application/pdf'' ''root'',
                    backupItem]
          else Inr []),
       folderListing = (\<lambda>calls folderID. Inr []),
       backoff = (\<lambda>calls. [Wait, Wait, Stop]) \<rparr>"

text \<open>The same store with a folder Fotos in the root in place of B.pdf.\<close>

definition photoService :: Service where
  "photoService =
     demoService\<lparr> listing := (\<lambda>calls folderID.
        if folderID = ''root''
        then Inr [item ''a-id'' ''A.txt'' ''text/plain'' ''root'',
                  item ''fotos-id'' ''Fotos'' ''application/vnd.google-apps.folder'' ''root'',
                  backupItem]
        else Inr []) \<rparr>"

text \<open>
  A classifier whose model answers with a response that holds no candidate, and whose
  JSON decoding never fails.
\<close>

definition emptyEnvelopeClassifier :: Classifier where
  "emptyEnvelopeClassifier =
     \<lparr> GenerateContent = (\<lambda>prompts prompt. Inr (Some [])),
       Unmarshal_slice = (\<lambda>text. Inr []),
       Unmarshal_single = (\<lambda>text. Inr reportSuggestion) \<rparr>"

definition neverCancelled :: Context where
  "neverCancelled = \<lparr> backupCancelled = (\<lambda>i. False), organizeCancelled = (\<lambda>i. False) \<rparr>"

definition startVars :: vars where
  "startVars =
     \<lparr> requests = [], prompts_sent = [], cache = NewCache, existingFolderNames = [],
       organized = 0, skipped = 0 \<rparr>"

section \<open>Properties of the cache\<close>

text \<open>
  Claim C4. For every key built from a name and a content type, \<open>Get\<close> after \<open>Set\<close>
  returns the stored suggestion, a later \<open>Set\<close> on the same key replaces it
  (last write wins), the key is the name, a bar and the content type, and writing a key
  twice leaves exactly the entries there were plus that one key.
\<close>

theorem cache_set_get_last_write_wins:
  "Get (Set c (CacheKey name mimeType) s) (CacheKey name mimeType) = s
   \<and> Get (Set (Set c (CacheKey name mimeType) s) (CacheKey name mimeType) s2)
        (CacheKey name mimeType) = s2
   \<and> CacheKey name mimeType = name @ ''|'' @ mimeType
   \<and> dom (items (Set c (CacheKey name mimeType) s)) = insert (CacheKey name mimeType) (dom (items c))
   \<and> dom (items (Set (Set c (CacheKey name mimeType) s) (CacheKey name mimeType) s2))
        = insert (CacheKey name mimeType) (dom (items c))"
  by (simp add: Get_def Set_def CacheKey_def)

theorem cache_set_get_last_write_wins_witness:
  "Get (Set (Set NewCache (CacheKey ''relatorio.pdf'' ''application/pdf'') (Some reportSuggestion))
          (CacheKey ''relatorio.pdf'' ''application/pdf'') (Some (fallbackSuggestion (metadataOf reportFile))))
     (CacheKey ''relatorio.pdf'' ''application/pdf'')
   = Some (fallbackSuggestion (metadataOf reportFile))
   \<and> CacheKey ''relatorio.pdf'' ''application/pdf'' = ''relatorio.pdf|application/pdf''"
  using cache_set_get_last_write_wins [of NewCache "''relatorio.pdf''" "''application/pdf''"
      "Some reportSuggestion" "Some (fallbackSuggestion (metadataOf reportFile))"]
  by (simp add: CacheKey_def)

section \<open>The recursive listing\<close>

lemma fold_listing_set:
  "set (fold (\<lambda>f allFiles. if P f then (case r f of Inl err \<Rightarrow> allFiles | Inr subFiles \<Rightarrow> allFiles @ subFiles)
                     else allFiles @ [f]) files acc)
   = set acc \<union> (\<Union>f \<in> set files. if P f then (case r f of Inl err \<Rightarrow> {} | Inr subFiles \<Rightarrow> set subFiles) else {f})"
  by (induction files arbitrary: acc) (auto split: sum.splits)

lemma depth_exceeded:
  "20 < depth \<Longrightarrow> listAllFilesRecursiveWithDepth lst folderID depth = Inl errMaxDepth"
  by (simp add: listAllFilesRecursiveWithDepth.simps)

lemma listing_fails_iff:
  "\<not> 20 < depth \<Longrightarrow>
   listAllFilesRecursiveWithDepth lst folderID depth = Inl e \<longleftrightarrow> lst folderID = Inl e"
  by (simp add: listAllFilesRecursiveWithDepth.simps split: sum.splits)

lemma inFolderAt_lists: "inFolderAt lst folderID d f \<Longrightarrow> \<exists>files. lst folderID = Inr files"
  by (cases d) (auto split: sum.splits)

lemma listing_succeeds:
  "\<not> 20 < depth \<Longrightarrow> lst folderID = Inr files \<Longrightarrow>
   \<exists>xs. listAllFilesRecursiveWithDepth lst folderID depth = Inr xs"
  by (simp add: listAllFilesRecursiveWithDepth.simps)

lemma listing_set:
  "listAllFilesRecursiveWithDepth lst folderID depth = Inr xs \<Longrightarrow>
   set xs = {f. \<exists>d. int d + depth \<le> 20 \<and> inFolderAt lst folderID d f}"
proof (induction lst folderID depth arbitrary: xs rule: listAllFilesRecursiveWithDepth.induct)
  case (1 lst fid depth)
  let ?r = "\<lambda>g. listAllFilesRecursiveWithDepth lst (ID g) (depth + 1)"
  from "1.prems" have shallow: "\<not> 20 < depth"
    by (auto simp: listAllFilesRecursiveWithDepth.simps split: if_splits)
  with "1.prems" obtain files where files: "lst fid = Inr files"
    and xs: "xs = fold (\<lambda>f allFiles. if IsFolder f
                 then (case ?r f of Inl err \<Rightarrow> allFiles | Inr subFiles \<Rightarrow> allFiles @ subFiles)
                 else allFiles @ [f]) files []"
    by (auto simp: listAllFilesRecursiveWithDepth.simps split: sum.splits)
  have set_xs: "set xs = (\<Union>g \<in> set files. if IsFolder g
                   then (case ?r g of Inl err \<Rightarrow> {} | Inr subFiles \<Rightarrow> set subFiles) else {g})"
    unfolding xs by (simp add: fold_listing_set)
  have IH: "set sub = {f. \<exists>d. int d + (depth + 1) \<le> 20 \<and> inFolderAt lst (ID g) d f}"
    if "g \<in> set files" "IsFolder g" "?r g = Inr sub" for g sub
    using "1.IH" [OF shallow files that] .
  show ?case
  proof (rule set_eqI, rule iffI)
    fix f assume "f \<in> set xs"
    then obtain g where g: "g \<in> set files"
      and f: "f \<in> (if IsFolder g then (case ?r g of Inl err \<Rightarrow> {} | Inr subFiles \<Rightarrow> set subFiles) else {g})"
      unfolding set_xs by blast
    show "f \<in> {f. \<exists>d. int d + depth \<le> 20 \<and> inFolderAt lst fid d f}"
    proof (cases "IsFolder g")
      case False
      with f g files shallow have "int 0 + depth \<le> 20 \<and> inFolderAt lst fid 0 f" by simp
      then show ?thesis by blast
    next
      case True
      with f obtain sub where sub: "?r g = Inr sub" "f \<in> set sub"
        by (auto split: sum.splits)
      from IH [OF g True sub(1)] sub(2)
      obtain d where d: "int d + (depth + 1) \<le> 20" "inFolderAt lst (ID g) d f" by blast
      with g True files have "int (Suc d) + depth \<le> 20 \<and> inFolderAt lst fid (Suc d) f"
        by auto
      then show ?thesis by blast
    qed
  next
    fix f assume "f \<in> {f. \<exists>d. int d + depth \<le> 20 \<and> inFolderAt lst fid d f}"
    then obtain d where d: "int d + depth \<le> 20" "inFolderAt lst fid d f" by blast
    show "f \<in> set xs"
    proof (cases d)
      case 0
      with d files have "f \<in> set files" "\<not> IsFolder f" by auto
      then show ?thesis unfolding set_xs by auto
    next
      case (Suc d')
      with d files obtain g where g: "g \<in> set files" "IsFolder g" "inFolderAt lst (ID g) d' f"
        by auto
      from d Suc have deep: "\<not> 20 < depth + 1" "int d' + (depth + 1) \<le> 20" by auto
      from inFolderAt_lists [OF g(3)] listing_succeeds [OF deep(1)]
      obtain sub where sub: "?r g = Inr sub" by blast
      from IH [OF g(1,2) sub] deep(2) g(3) have "f \<in> set sub" by blast
      with g sub show ?thesis unfolding set_xs by force
    qed
  qed
qed

text \<open>
  Claim C1, as amended. The depth counter starts at 0 at the root. A call at depth 21
  or deeper returns the maximum-depth error, but the caller logs it and skips that
  subtree, so the listing of the root does not fail on a tree of depth 21: it fails
  only when the listing of the root folder itself fails, and otherwise succeeds and
  returns exactly the files that lie in folders at depth at most 20, which on a tree of
  depth at most 20 are all files.
\<close>

theorem recursive_listing_depth_limit:
  "ListAllFilesRecursive lst folderID = listAllFilesRecursiveWithDepth lst folderID 0
   \<and> listAllFilesRecursiveWithDepth lst sub (21 + int k) = Inl errMaxDepth
   \<and> (case lst folderID of
         Inl err \<Rightarrow> ListAllFilesRecursive lst folderID = Inl err
       | Inr files \<Rightarrow> \<exists>xs. ListAllFilesRecursive lst folderID = Inr xs
                     \<and> set xs = {f. \<exists>d \<le> 20. inFolderAt lst folderID d f})"
proof (intro conjI)
  show "ListAllFilesRecursive lst folderID = listAllFilesRecursiveWithDepth lst folderID 0"
    by (simp add: ListAllFilesRecursive_def)
  show "listAllFilesRecursiveWithDepth lst sub (21 + int k) = Inl errMaxDepth"
    by (simp add: depth_exceeded)
  show "case lst folderID of
         Inl err \<Rightarrow> ListAllFilesRecursive lst folderID = Inl err
       | Inr files \<Rightarrow> \<exists>xs. ListAllFilesRecursive lst folderID = Inr xs
                     \<and> set xs = {f. \<exists>d \<le> 20. inFolderAt lst folderID d f}"
  proof (cases "lst folderID")
    case (Inl err)
    then show ?thesis by (simp add: ListAllFilesRecursive_def listing_fails_iff)
  next
    case (Inr files)
    from Inr obtain xs where xs: "listAllFilesRecursiveWithDepth lst folderID 0 = Inr xs"
      using listing_succeeds [where lst = lst and folderID = folderID and depth = 0] by auto
    from listing_set [OF xs] have "set xs = {f. \<exists>d \<le> 20. inFolderAt lst folderID d f}" by simp
    with xs Inr show ?thesis by (simp add: ListAllFilesRecursive_def)
  qed
qed

lemma chain21_eval: "ListAllFilesRecursive (chainStore 21) [] = Inr []"
  unfolding ListAllFilesRecursive_def
  by (simp add: listAllFilesRecursiveWithDepth.simps chainStore_def item_def IsFolder_def)

lemma chain20_eval:
  "ListAllFilesRecursive (chainStore 20) [] = Inr [item ''deep'' ''deep.txt'' ''text/plain'' ''aaaaaaaaaaaaaaaaaaaa'']"
  unfolding ListAllFilesRecursive_def
  by (simp add: listAllFilesRecursiveWithDepth.simps chainStore_def item_def IsFolder_def)

lemma chain21_deep: "inFolderAt (chainStore 21) [] 21 (item ''deep'' ''deep.txt'' ''text/plain'' ''aaaaaaaaaaaaaaaaaaaaa'')"
  by (simp add: eval_nat_numeral chainStore_def item_def IsFolder_def)

text \<open>
  On the chain of depth 21 the listing succeeds with no file, although a file lies at
  depth 21: the claim as stated, that it fails with the maximum-depth error, is false.
\<close>

theorem recursive_listing_depth21_succeeds:
  "ListAllFilesRecursive (chainStore 21) [] = Inr []
   \<and> ListAllFilesRecursive (chainStore 21) [] \<noteq> Inl errMaxDepth
   \<and> inFolderAt (chainStore 21) [] 21 (item ''deep'' ''deep.txt'' ''text/plain'' ''aaaaaaaaaaaaaaaaaaaaa'')"
  using chain21_deep by (simp add: chain21_eval)

text \<open>On the chain of depth 20 the listing returns the one file there is.\<close>

theorem recursive_listing_depth20_all_files:
  "ListAllFilesRecursive (chainStore 20) [] = Inr [item ''deep'' ''deep.txt'' ''text/plain'' ''aaaaaaaaaaaaaaaaaaaa'']
   \<and> {f. \<exists>d \<le> 20. inFolderAt (chainStore 20) [] d f} = {item ''deep'' ''deep.txt'' ''text/plain'' ''aaaaaaaaaaaaaaaaaaaa''}
   \<and> listAllFilesRecursiveWithDepth (chainStore 20) ''aaaaaaaaaaaaaaaaaaaaa'' 21 = Inl errMaxDepth"
  using recursive_listing_depth_limit [of "chainStore 20" "[]" "''aaaaaaaaaaaaaaaaaaaaa''" 0]
  by (simp add: chain20_eval chainStore_def)

section \<open>The retry executor\<close>

lemma retry_permanent_prefix:
  assumes "\<forall>j<k. \<exists>e. Files_Update srv (calls @ replicate j (UpdateCall fileID name a r)) fileID name a r = Inl e
                      \<and> isRetryable e"
    and "Files_Update srv (calls @ replicate k (UpdateCall fileID name a r)) fileID name a r = Inl err"
    and "\<not> isRetryable err"
    and "take k ticks = replicate k Wait"
  shows "Retry (update_operation srv fileID name a r) ticks calls
         = (Some err, calls @ replicate (Suc k) (UpdateCall fileID name a r))"
  using assms
proof (induction k arbitrary: calls ticks)
  case 0
  then show ?case
    by (cases ticks) (simp_all add: update_operation_def)
next
  case (Suc k)
  let ?c = "UpdateCall fileID name a r"
  from Suc.prems(1) obtain e where e: "Files_Update srv calls fileID name a r = Inl e" "isRetryable e"
    by force
  from Suc.prems(4) obtain ts where ticks: "ticks = Wait # ts" "take k ts = replicate k Wait"
    by (cases ticks) auto
  have step: "Retry (update_operation srv fileID name a r) ticks calls
              = Retry (update_operation srv fileID name a r) ts (calls @ [?c])"
    using e by (simp add: ticks update_operation_def)
  have "\<forall>j<k. \<exists>e. Files_Update srv ((calls @ [?c]) @ replicate j ?c) fileID name a r = Inl e \<and> isRetryable e"
  proof (intro allI impI)
    fix j assume "j < k"
    then have "Suc j < Suc k" by simp
    with Suc.prems(1) show "\<exists>e. Files_Update srv ((calls @ [?c]) @ replicate j ?c) fileID name a r = Inl e \<and> isRetryable e"
      by (metis append.assoc append_Cons append_Nil replicate_Suc)
  qed
  moreover have "Files_Update srv ((calls @ [?c]) @ replicate k ?c) fileID name a r = Inl err"
    using Suc.prems(2) by simp
  ultimately have "Retry (update_operation srv fileID name a r) ts (calls @ [?c])
                   = (Some err, (calls @ [?c]) @ replicate (Suc k) ?c)"
    using Suc.IH [of "calls @ [?c]" ts] Suc.prems(3) ticks(2) by blast
  with step show ?case by simp
qed

text \<open>
  Claim C7. When an attempt of \<open>MoveFile\<close>, \<open>RenameFile\<close> or \<open>MoveAndRenameFile\<close>
  meets an error classified as permanent, after any number \<open>k\<close> of retried attempts,
  that attempt is the last request sent, whatever is left of the backoff schedule, and
  the function returns the error wrapped with the file identifier.
\<close>

theorem permanent_error_returns_at_once:
  "(failsPermanentlyAfter srv calls fileID None (Some newParentID) (Some oldParentID) k err \<longrightarrow>
      MoveFile srv fileID newParentID oldParentID calls
      = (Some (Errorf (''erro ao mover arquivo '' @ apos @ fileID @ apos @ '': '') err []),
         calls @ replicate (Suc k) (UpdateCall fileID None (Some newParentID) (Some oldParentID))))
   \<and> (failsPermanentlyAfter srv calls fileID (Some newName) None None k err \<longrightarrow>
      RenameFile srv fileID newName calls
      = (Some (Errorf (''erro ao renomear arquivo '' @ apos @ fileID @ apos @ '': '') err []),
         calls @ replicate (Suc k) (UpdateCall fileID (Some newName) None None)))
   \<and> (failsPermanentlyAfter srv calls fileID (Some newName) (Some newParentID) (Some oldParentID) k err \<longrightarrow>
      MoveAndRenameFile srv fileID newName newParentID oldParentID calls
      = (Some (Errorf (''erro ao mover e renomear arquivo '' @ apos @ fileID @ apos @ '': '') err []),
         calls @ replicate (Suc k) (UpdateCall fileID (Some newName) (Some newParentID) (Some oldParentID))))"
  unfolding failsPermanentlyAfter_def MoveFile_def RenameFile_def MoveAndRenameFile_def
  by (auto simp: retry_permanent_prefix simp del: replicate_Suc)

lemma flaky_404_permanent: "\<not> isRetryable (ApiError 404 ''googleapi: Error 404: File not found'')"
  by (simp add: isRetryable_def)

lemma flaky_503_retryable: "isRetryable (ApiError 503 ''googleapi: Error 503: Service Unavailable'')"
  by (simp add: isRetryable_def)

theorem permanent_error_returns_at_once_witness:
  "failsPermanentlyAfter flakyService [] ''file-1'' None (Some ''dest-id'') (Some ''root'') 1
     (ApiError 404 ''googleapi: Error 404: File not found'')
   \<and> MoveFile flakyService ''file-1'' ''dest-id'' ''root'' []
     = (Some (Errorf (''erro ao mover arquivo '' @ apos @ ''file-1'' @ apos @ '': '')
                (ApiError 404 ''googleapi: Error 404: File not found'') []),
        [UpdateCall ''file-1'' None (Some ''dest-id'') (Some ''root''),
         UpdateCall ''file-1'' None (Some ''dest-id'') (Some ''root'')])
   \<and> failsPermanentlyAfter flakyService [] ''file-1'' (Some ''novo.pdf'') None None 1
     (ApiError 404 ''googleapi: Error 404: File not found'')
   \<and> RenameFile flakyService ''file-1'' ''novo.pdf'' []
     = (Some (Errorf (''erro ao renomear arquivo '' @ apos @ ''file-1'' @ apos @ '': '')
                (ApiError 404 ''googleapi: Error 404: File not found'') []),
        [UpdateCall ''file-1'' (Some ''novo.pdf'') None None,
         UpdateCall ''file-1'' (Some ''novo.pdf'') None None])
   \<and> failsPermanentlyAfter flakyService [] ''file-1'' (Some ''novo.pdf'') (Some ''dest-id'') (Some ''root'') 1
     (ApiError 404 ''googleapi: Error 404: File not found'')
   \<and> MoveAndRenameFile flakyService ''file-1'' ''novo.pdf'' ''dest-id'' ''root'' []
     = (Some (Errorf (''erro ao mover e renomear arquivo '' @ apos @ ''file-1'' @ apos @ '': '')
                (ApiError 404 ''googleapi: Error 404: File not found'') []),
        [UpdateCall ''file-1'' (Some ''novo.pdf'') (Some ''dest-id'') (Some ''root''),
         UpdateCall ''file-1'' (Some ''novo.pdf'') (Some ''dest-id'') (Some ''root'')])"
proof -
  have h: "failsPermanentlyAfter flakyService [] ''file-1'' name addParents removeParents 1
             (ApiError 404 ''googleapi: Error 404: File not found'')" for name addParents removeParents
    by (simp add: failsPermanentlyAfter_def flakyService_def flaky_404_permanent flaky_503_retryable)
  from h permanent_error_returns_at_once [of flakyService "[]" "''file-1''" "''dest-id''" "''root''" 1
      "ApiError 404 ''googleapi: Error 404: File not found''" "''novo.pdf''"]
  show ?thesis by simp
qed

lemma isRetryable_iff:
  "isRetryable err \<longleftrightarrow>
     (\<exists>code text. err = ApiError code text \<and> code \<in> {429, 500, 502, 503, 504})
     \<or> Contains (Error err) ''connection reset''
     \<or> Contains (Error err) ''connection refused''
     \<or> Contains (Error err) ''timeout''"
  by (cases err) (auto simp: isRetryable_def)

lemma list_operation_class:
  "Files_List srv calls (apos @ folderID @ apos @ '' in parents and trashed = false'') 100 pageToken = Inl err \<Longrightarrow>
   fst (listFilesInFolder_operation srv folderID pageToken (result, calls))
   = (if \<exists>code text. err = ApiError code text \<and> code \<in> {429, 500, 503} then Retryable err
      else PermanentError (Errorf ''erro ao listar arquivos: '' err []))"
  by (cases err) (auto simp: listFilesInFolder_operation_def Let_def)

text \<open>
  Claim C3, as amended. The operation of \<open>MoveFile\<close>, \<open>RenameFile\<close> and
  \<open>MoveAndRenameFile\<close> returns an error for retry exactly when it is an API error with
  status 429, 500, 502, 503 or 504 or its text contains "connection reset", "connection
  refused" or "timeout", and wraps every other error as permanent. The operation of a
  list-page fetch returns an error for retry exactly when it is an API error with status
  429, 500 or 503, and wraps every other error as permanent. After a granted wait the
  retry loop runs the operation again on an error returned for retry and ends on a
  permanent one.
\<close>

theorem retry_classification:
  "(Files_Update srv calls fileID name addParents removeParents = Inl err \<longrightarrow>
      fst (update_operation srv fileID name addParents removeParents calls)
      = (if (\<exists>code text. err = ApiError code text \<and> code \<in> {429, 500, 502, 503, 504})
            \<or> Contains (Error err) ''connection reset''
            \<or> Contains (Error err) ''connection refused''
            \<or> Contains (Error err) ''timeout''
         then Retryable err else PermanentError err))
   \<and> (Files_List srv calls (apos @ folderID @ apos @ '' in parents and trashed = false'') 100 pageToken
        = Inl err \<longrightarrow>
      fst (listFilesInFolder_operation srv folderID pageToken (result, calls))
      = (if \<exists>code text. err = ApiError code text \<and> code \<in> {429, 500, 503} then Retryable err
         else PermanentError (Errorf ''erro ao listar arquivos: '' err [])))
   \<and> Retry operation (Wait # ticks) s
      = (case operation s of
           (Succeeded, s') \<Rightarrow> (None, s')
         | (Retryable e, s') \<Rightarrow> Retry operation ticks s'
         | (PermanentError e, s') \<Rightarrow> (Some e, s'))"
proof (intro conjI impI)
  assume "Files_Update srv calls fileID name addParents removeParents = Inl err"
  then show "fst (update_operation srv fileID name addParents removeParents calls)
      = (if (\<exists>code text. err = ApiError code text \<and> code \<in> {429, 500, 502, 503, 504})
            \<or> Contains (Error err) ''connection reset''
            \<or> Contains (Error err) ''connection refused''
            \<or> Contains (Error err) ''timeout''
         then Retryable err else PermanentError err)"
    using isRetryable_iff [of err] by (simp add: update_operation_def Let_def)
next
  assume "Files_List srv calls (apos @ folderID @ apos @ '' in parents and trashed = false'') 100 pageToken
        = Inl err"
  then show "fst (listFilesInFolder_operation srv folderID pageToken (result, calls))
      = (if \<exists>code text. err = ApiError code text \<and> code \<in> {429, 500, 503} then Retryable err
         else PermanentError (Errorf ''erro ao listar arquivos: '' err []))"
    by (rule list_operation_class)
next
  show "Retry operation (Wait # ticks) s
      = (case operation s of
           (Succeeded, s') \<Rightarrow> (None, s')
         | (Retryable e, s') \<Rightarrow> Retry operation ticks s'
         | (PermanentError e, s') \<Rightarrow> (Some e, s'))"
    by (simp split: prod.splits attempt.splits)
qed

text \<open>
  A list-page fetch answered with status 502 is classified as permanent and sent once,
  although the schedule grants waits: the claim as stated is false for list-page fetches.
\<close>

theorem list_page_502_not_retried:
  "fst (listFilesInFolder_operation flakyService ''root'' [] (None, []))
     = PermanentError (Errorf ''erro ao listar arquivos: ''
                         (ApiError 502 ''googleapi: Error 502: Bad Gateway'') [])
   \<and> listFilesInFolder_page flakyService ''root'' [] []
     = (Some (Errorf ''erro ao listar arquivos: '' (ApiError 502 ''googleapi: Error 502: Bad Gateway'') []),
        None,
        [ListCall (apos @ ''root'' @ apos @ '' in parents and trashed = false'') 100 []])"
  by (simp add: listFilesInFolder_page_def listFilesInFolder_operation_def flakyService_def)

theorem retry_classification_witness:
  "Files_Update flakyService [] ''file-1'' None (Some ''dest-id'') (Some ''root'')
     = Inl (ApiError 503 ''googleapi: Error 503: Service Unavailable'')
   \<and> fst (update_operation flakyService ''file-1'' None (Some ''dest-id'') (Some ''root'') [])
     = Retryable (ApiError 503 ''googleapi: Error 503: Service Unavailable'')
   \<and> Files_List flakyService [] (apos @ ''root'' @ apos @ '' in parents and trashed = false'') 100 []
     = Inl (ApiError 502 ''googleapi: Error 502: Bad Gateway'')
   \<and> fst (listFilesInFolder_operation flakyService ''root'' [] (None, []))
     = PermanentError (Errorf ''erro ao listar arquivos: ''
                         (ApiError 502 ''googleapi: Error 502: Bad Gateway'') [])"
proof -
  have u: "Files_Update flakyService [] ''file-1'' None (Some ''dest-id'') (Some ''root'')
     = Inl (ApiError 503 ''googleapi: Error 503: Service Unavailable'')"
    by (simp add: flakyService_def)
  have l: "Files_List flakyService [] (apos @ ''root'' @ apos @ '' in parents and trashed = false'') 100 []
     = Inl (ApiError 502 ''googleapi: Error 502: Bad Gateway'')"
    by (simp add: flakyService_def)
  from u retry_classification [where srv = flakyService and calls = "[]" and fileID = "''file-1''"
      and name = None and addParents = "Some ''dest-id''" and removeParents = "Some ''root''"
      and err = "ApiError 503 ''googleapi: Error 503: Service Unavailable''", THEN conjunct1]
  have 1: "fst (update_operation flakyService ''file-1'' None (Some ''dest-id'') (Some ''root'') [])
     = Retryable (ApiError 503 ''googleapi: Error 503: Service Unavailable'')"
    by simp
  from l retry_classification [where srv = flakyService and calls = "[]" and folderID = "''root''"
      and pageToken = "[]" and result = None
      and err = "ApiError 502 ''googleapi: Error 502: Bad Gateway''", THEN conjunct2, THEN conjunct1]
  have 2: "fst (listFilesInFolder_operation flakyService ''root'' [] (None, []))
     = PermanentError (Errorf ''erro ao listar arquivos: ''
                         (ApiError 502 ''googleapi: Error 502: Bad Gateway'') [])"
    by simp
  from u l 1 2 show ?thesis by blast
qed

section \<open>The decision loop\<close>

lemma TrimSpace_Nil: "TrimSpace [] = []"
  by (simp add: TrimSpace_def TrimLeftSpace_def TrimRightSpace_def)

lemma decide_accept:
  "TrimSpace (ToLower line) = ''m'' \<or> TrimSpace (ToLower line) = [] \<Longrightarrow>
   decide cls f suggestion v (line # rest)
   = (Target (SuggestedFolder suggestion) (suggestedOrOriginalName suggestion f), v, rest)"
  by (subst decide.simps) (auto simp: ReadString_def)

lemma decide_eof:
  "decide cls f suggestion v []
   = (Target (SuggestedFolder suggestion) (suggestedOrOriginalName suggestion f), v, [])"
  by (subst decide.simps) (simp add: ReadString_def ToLower_def TrimSpace_Nil)

lemma decide_create_empty:
  "TrimSpace (ToLower line) = ''c'' \<Longrightarrow> TrimSpace line2 = [] \<Longrightarrow>
   decide cls f suggestion v (line # line2 # rest)
   = decide cls f suggestion (v\<lparr>skipped := skipped v + 1\<rparr>) rest"
  by (subst decide.simps) (simp add: ReadString_def)

lemmas trim_eval = TrimSpace_def TrimLeftSpace_def TrimRightSpace_def ToLower_def lowerChar_def
  asciiSpace_def space2_def space3_def

lemma line_c: "TrimSpace (ToLower (''c'' @ newline)) = ''c''"
  by (simp add: trim_eval)
lemma line_m: "TrimSpace (ToLower (''m'' @ newline)) = ''m''"
  by (simp add: trim_eval)
lemma line_empty: "TrimSpace newline = []"
  by (simp add: trim_eval)

text \<open>
  Claim C5. For every file and suggestion, the input m or the empty input (also the
  end of the input) ends the prompt loop with the suggestion's folder and the
  suggestion's name, the name being the file's own name when the suggested name is
  absent or equal to it; nothing else changes.
\<close>

theorem accept_uses_suggestion:
  "(TrimSpace (ToLower line) = ''m'' \<or> TrimSpace (ToLower line) = [] \<longrightarrow>
      decide cls f suggestion v (line # rest)
      = (Target (SuggestedFolder suggestion)
           (if SuggestedName suggestion \<noteq> [] \<and> SuggestedName suggestion \<noteq> Name f
            then SuggestedName suggestion else Name f), v, rest))
   \<and> decide cls f suggestion v []
      = (Target (SuggestedFolder suggestion)
           (if SuggestedName suggestion \<noteq> [] \<and> SuggestedName suggestion \<noteq> Name f
            then SuggestedName suggestion else Name f), v, [])"
  using decide_accept [of line cls f suggestion v rest] decide_eof [of cls f suggestion v]
  by (simp add: suggestedOrOriginalName_def)

lemma line_empty_lower: "TrimSpace (ToLower newline) = []"
  by (simp add: trim_eval)

theorem accept_uses_suggestion_witness:
  "TrimSpace (ToLower (''m'' @ newline)) = ''m''
   \<and> decide (demoClassifier []) reportFile reportSuggestion startVars [''m'' @ newline]
     = (Target (''Trabalho/Relat'' @ [CHR 0xC3, CHR 0xB3] @ ''rios'') ''relatorio.pdf'', startVars, [])
   \<and> TrimSpace (ToLower newline) = []
   \<and> decide (demoClassifier []) reportFile reportSuggestion startVars [newline]
     = (Target (''Trabalho/Relat'' @ [CHR 0xC3, CHR 0xB3] @ ''rios'') ''relatorio.pdf'', startVars, [])"
proof -
  have m: "TrimSpace (ToLower (''m'' @ newline)) = ''m''" by (rule line_m)
  have e: "TrimSpace (ToLower newline) = []" by (rule line_empty_lower)
  from m accept_uses_suggestion [of "''m'' @ newline" "demoClassifier []" reportFile reportSuggestion startVars "[]"]
  have 1: "decide (demoClassifier []) reportFile reportSuggestion startVars [''m'' @ newline]
     = (Target (''Trabalho/Relat'' @ [CHR 0xC3, CHR 0xB3] @ ''rios'') ''relatorio.pdf'', startVars, [])"
    by (simp add: reportFile_def reportSuggestion_def)
  from e accept_uses_suggestion [of "newline" "demoClassifier []" reportFile reportSuggestion startVars "[]"]
  have 2: "decide (demoClassifier []) reportFile reportSuggestion startVars [newline]
     = (Target (''Trabalho/Relat'' @ [CHR 0xC3, CHR 0xB3] @ ''rios'') ''relatorio.pdf'', startVars, [])"
    by (simp add: reportFile_def reportSuggestion_def)
  from m e 1 2 show ?thesis by blast
qed

section \<open>Resolving a folder path\<close>

lemma nested_loop_blank:
  "list_all (\<lambda>seg. TrimSpace seg = []) parts \<Longrightarrow>
   FindOrCreateNestedFolder_loop srv parts currentParent lastFolder calls = (Inr lastFolder, calls)"
  by (induction parts) simp_all

text \<open>
  Claim C10. For every path whose slash-separated segments are all empty after
  trimming, \<open>FindOrCreateNestedFolder\<close> returns the \<open>nil\<close> folder with no error and
  sends no request, and the caller in \<open>runOrganize\<close>, which reads the identifier of the
  returned folder without a check, ends in a \<open>nil\<close> dereference.
\<close>

theorem blank_path_returns_nil_folder:
  assumes "list_all (\<lambda>seg. TrimSpace seg = []) (Split path)"
  shows "FindOrCreateNestedFolder srv path rootParentID calls = (Inr None, calls)
         \<and> moveToTarget srv backupFolder f path targetName v = (Return NilDereference, v)"
  using assms
  by (simp add: FindOrCreateNestedFolder_def nested_loop_blank moveToTarget_def split: option.splits)

theorem blank_path_returns_nil_folder_witness:
  "list_all (\<lambda>seg. TrimSpace seg = []) (Split '' / '')
   \<and> FindOrCreateNestedFolder demoService '' / '' ''root'' [] = (Inr None, [])
   \<and> moveToTarget demoService (Some backupItem) reportFile '' / '' ''relatorio.pdf'' startVars
     = (Return NilDereference, startVars)"
proof -
  have h: "list_all (\<lambda>seg. TrimSpace seg = []) (Split '' / '')"
    by (simp add: trim_eval)
  from blank_path_returns_nil_folder [OF h] h show ?thesis by blast
qed

section \<open>The classifier\<close>

lemma classify_single_outcome:
  "fst (ClassifySingle c file existingFolders prompts)
   = (case GenerateContent c prompts (buildClassificationPrompt [file] existingFolders) of
        Inl err \<Rightarrow> Inl (Errorf ''erro ao classificar arquivos: '' err [])
      | Inr resp \<Rightarrow>
          (case parseResponse c resp of
             Inl err \<Rightarrow> Inl (Errorf ''erro ao parsear resposta da IA: '' err [])
           | Inr [] \<Rightarrow> Inr (fallbackSuggestion file)
           | Inr (s # others) \<Rightarrow> Inr s))"
  by (simp add: ClassifySingle_def ClassifyBatch_def Let_def split: sum.splits list.splits)

lemma classify_content_outcome:
  "fst (ClassifyWithContent c file content existingFolders prompts)
   = (case GenerateContent c prompts (buildContentPrompt file content existingFolders) of
        Inl err \<Rightarrow> Inl (Errorf (''erro ao classificar com conte'' @ u_acute @ ''do: '') err [])
      | Inr resp \<Rightarrow>
          (case parseResponse c resp of
             Inl err \<Rightarrow> Inl err
           | Inr [] \<Rightarrow> Inr (fallbackSuggestion file)
           | Inr (s # others) \<Rightarrow> Inr s))"
  by (simp add: ClassifyWithContent_def Let_def split: sum.splits list.splits)

lemma classify_description_outcome:
  "fst (ClassifyWithDescription c file d existingFolders prompts)
   = (case GenerateContent c prompts (buildDescriptionPrompt file d existingFolders) of
        Inl err \<Rightarrow> Inl (Errorf (''erro ao classificar com descri'' @ c_cedilla @ a_tilde @ ''o: '') err [])
      | Inr resp \<Rightarrow>
          (case parseResponse c resp of
             Inl err \<Rightarrow> Inl err
           | Inr [] \<Rightarrow> Inr (fallbackSuggestion file)
           | Inr (s # others) \<Rightarrow> Inr s))"
  by (simp add: ClassifyWithDescription_def Let_def split: sum.splits list.splits)

lemma parseResponse_fails_iff:
  "(\<exists>e. parseResponse c resp = Inl e) \<longleftrightarrow>
     resp = None
     \<or> resp = Some []
     \<or> (\<exists>others. resp = Some (Candidate None # others))
     \<or> (\<exists>others. resp = Some (Candidate (Some []) # others))
     \<or> (\<exists>parts others. resp = Some (Candidate (Some (OtherPart # parts)) # others))
     \<or> (\<exists>text parts others e1 e2.
            resp = Some (Candidate (Some (Text text # parts)) # others)
            \<and> Unmarshal_slice c (TrimSpace text) = Inl e1
            \<and> Unmarshal_single c (TrimSpace text) = Inl e2)"
  by (auto simp: parseResponse_def Let_def
      split: option.splits list.splits Candidate.splits Part.splits sum.splits)

text \<open>
  Claim C9, as amended. When the model's answer parses to an empty list of suggestions,
  \<open>ClassifySingle\<close>, \<open>ClassifyWithContent\<close> and \<open>ClassifyWithDescription\<close> return the
  fallback suggestion, with folder "Outros", confidence 0 and the file's name, and no
  error. They return an error exactly when the request fails or \<open>parseResponse\<close> fails,
  and \<open>parseResponse\<close> fails exactly when the response is \<open>nil\<close> or holds no candidate,
  the first candidate has no content or no part, its first part is not a text, or the
  text decodes neither as a list of suggestions nor as one suggestion.
\<close>

theorem empty_suggestions_fallback:
  "(GenerateContent c prompts (buildClassificationPrompt [file] existingFolders) = Inr resp
      \<and> parseResponse c resp = Inr [] \<longrightarrow>
      fst (ClassifySingle c file existingFolders prompts) = Inr (fallbackSuggestion file))
   \<and> (GenerateContent c prompts (buildContentPrompt file content existingFolders) = Inr resp
      \<and> parseResponse c resp = Inr [] \<longrightarrow>
      fst (ClassifyWithContent c file content existingFolders prompts) = Inr (fallbackSuggestion file))
   \<and> (GenerateContent c prompts (buildDescriptionPrompt file userDescription existingFolders) = Inr resp
      \<and> parseResponse c resp = Inr [] \<longrightarrow>
      fst (ClassifyWithDescription c file userDescription existingFolders prompts)
      = Inr (fallbackSuggestion file))
   \<and> SuggestedFolder (fallbackSuggestion file) = ''Outros''
   \<and> Confidence (fallbackSuggestion file) = 0
   \<and> Filename (fallbackSuggestion file) = meta_Name file
   \<and> ((\<exists>err. fst (ClassifySingle c file existingFolders prompts) = Inl err)
        \<longleftrightarrow> (\<exists>e. GenerateContent c prompts (buildClassificationPrompt [file] existingFolders) = Inl e)
            \<or> (\<exists>r e. GenerateContent c prompts (buildClassificationPrompt [file] existingFolders) = Inr r
                    \<and> parseResponse c r = Inl e))
   \<and> ((\<exists>err. fst (ClassifyWithContent c file content existingFolders prompts) = Inl err)
        \<longleftrightarrow> (\<exists>e. GenerateContent c prompts (buildContentPrompt file content existingFolders) = Inl e)
            \<or> (\<exists>r e. GenerateContent c prompts (buildContentPrompt file content existingFolders) = Inr r
                    \<and> parseResponse c r = Inl e))
   \<and> ((\<exists>err. fst (ClassifyWithDescription c file userDescription existingFolders prompts) = Inl err)
        \<longleftrightarrow> (\<exists>e. GenerateContent c prompts (buildDescriptionPrompt file userDescription existingFolders) = Inl e)
            \<or> (\<exists>r e. GenerateContent c prompts (buildDescriptionPrompt file userDescription existingFolders) = Inr r
                    \<and> parseResponse c r = Inl e))
   \<and> ((\<exists>e. parseResponse c resp = Inl e) \<longleftrightarrow>
         resp = None
         \<or> resp = Some []
         \<or> (\<exists>others. resp = Some (Candidate None # others))
         \<or> (\<exists>others. resp = Some (Candidate (Some []) # others))
         \<or> (\<exists>parts others. resp = Some (Candidate (Some (OtherPart # parts)) # others))
         \<or> (\<exists>text parts others e1 e2.
                resp = Some (Candidate (Some (Text text # parts)) # others)
                \<and> Unmarshal_slice c (TrimSpace text) = Inl e1
                \<and> Unmarshal_single c (TrimSpace text) = Inl e2))"
proof (intro conjI)
  show "SuggestedFolder (fallbackSuggestion file) = ''Outros''"
    "Confidence (fallbackSuggestion file) = 0"
    "Filename (fallbackSuggestion file) = meta_Name file"
    by (simp_all add: fallbackSuggestion_def)
  show "(\<exists>e. parseResponse c resp = Inl e) \<longleftrightarrow>
         resp = None
         \<or> resp = Some []
         \<or> (\<exists>others. resp = Some (Candidate None # others))
         \<or> (\<exists>others. resp = Some (Candidate (Some []) # others))
         \<or> (\<exists>parts others. resp = Some (Candidate (Some (OtherPart # parts)) # others))
         \<or> (\<exists>text parts others e1 e2.
                resp = Some (Candidate (Some (Text text # parts)) # others)
                \<and> Unmarshal_slice c (TrimSpace text) = Inl e1
                \<and> Unmarshal_single c (TrimSpace text) = Inl e2)"
    by (rule parseResponse_fails_iff)
qed (auto simp: classify_single_outcome classify_content_outcome classify_description_outcome
       split: sum.splits list.splits)

lemma demo_empty_parse:
  "parseResponse (demoClassifier []) (Some [Candidate (Some [Text ''[]''])]) = Inr []"
  by (simp add: parseResponse_def demoClassifier_def)

theorem empty_suggestions_fallback_witness:
  "GenerateContent (demoClassifier []) [] (buildClassificationPrompt [metadataOf reportFile] [])
     = Inr (Some [Candidate (Some [Text ''[]''])])
   \<and> parseResponse (demoClassifier []) (Some [Candidate (Some [Text ''[]''])]) = Inr []
   \<and> fst (ClassifySingle (demoClassifier []) (metadataOf reportFile) [] [])
     = Inr (fallbackSuggestion (metadataOf reportFile))
   \<and> fst (ClassifyWithContent (demoClassifier []) (metadataOf reportFile) ''texto'' [] [])
     = Inr (fallbackSuggestion (metadataOf reportFile))
   \<and> fst (ClassifyWithDescription (demoClassifier []) (metadataOf reportFile) ''texto'' [] [])
     = Inr (fallbackSuggestion (metadataOf reportFile))
   \<and> SuggestedFolder (fallbackSuggestion (metadataOf reportFile)) = ''Outros''
   \<and> Confidence (fallbackSuggestion (metadataOf reportFile)) = 0
   \<and> Filename (fallbackSuggestion (metadataOf reportFile)) = ''relatorio.pdf''"
proof -
  have g: "GenerateContent (demoClassifier []) [] p = Inr (Some [Candidate (Some [Text ''[]''])])" for p
    by (simp add: demoClassifier_def)
  note t = empty_suggestions_fallback [of "demoClassifier []" "[]" "metadataOf reportFile" "[]"
      "Some [Candidate (Some [Text ''[]''])]" "''texto''" "''texto''"]
  from t g demo_empty_parse show ?thesis
    by (simp add: metadataOf_def reportFile_def)
qed

text \<open>
  The request succeeds, the JSON decoding never fails, and the response holds no
  candidate: the three functions return an error, so the claim as stated, that an error
  is returned only when the request or the JSON parse fails, is false.
\<close>

theorem empty_envelope_returns_error:
  "GenerateContent emptyEnvelopeClassifier [] (buildClassificationPrompt [metadataOf reportFile] [])
     = Inr (Some [])
   \<and> Unmarshal_slice emptyEnvelopeClassifier ''[]'' = Inr []
   \<and> fst (ClassifySingle emptyEnvelopeClassifier (metadataOf reportFile) [] [])
     = Inl (Errorf ''erro ao parsear resposta da IA: '' (ErrorString ''resposta vazia da IA'') [])
   \<and> fst (ClassifyWithContent emptyEnvelopeClassifier (metadataOf reportFile) ''texto'' [] [])
     = Inl (ErrorString ''resposta vazia da IA'')
   \<and> fst (ClassifyWithDescription emptyEnvelopeClassifier (metadataOf reportFile) ''texto'' [] [])
     = Inl (ErrorString ''resposta vazia da IA'')"
  by (simp add: classify_single_outcome classify_content_outcome classify_description_outcome
      emptyEnvelopeClassifier_def parseResponse_def)

lemma content_prompt_shape:
  "\<exists>pre post. \<forall>content. buildContentPrompt file content existingFolders
       = pre @ (if 2000 < length content then take 2000 content @ ''... [truncado]'' else content) @ post"
proof -
  define pre where "pre =
     ''Classifique o seguinte arquivo com base no nome, metadados E conte'' @ u_acute @ ''do.''
       @ newline @ newline
     @ existingFoldersBlock (''Pastas j'' @ a_acute @ '' existentes:'' @ newline) existingFolders
     @ ''Arquivo: '' @ meta_Name file @ newline @ ''Tipo: '' @ meta_MimeType file @ newline
       @ ''Tamanho: '' @ itoa (meta_Size file) @ '' bytes'' @ newline @ newline
     @ ''Conte'' @ u_acute @ ''do (primeiros caracteres):'' @ newline @ ''---'' @ newline"
  define post where "post =
     newline @ ''---'' @ newline
     @ newline @ ''Retorne um array JSON com a classifica'' @ c_cedilla @ a_tilde @ ''o.''"
  have "\<forall>content. buildContentPrompt file content existingFolders
       = pre @ (if 2000 < length content then take 2000 content @ ''... [truncado]'' else content) @ post"
    by (simp add: buildContentPrompt_def pre_def post_def)
  then show ?thesis by blast
qed

lemma description_prompt_shape:
  "\<exists>pre post. \<forall>d. buildDescriptionPrompt file d existingFolders = pre @ d @ post"
proof -
  define pre where "pre =
     ''Classifique o seguinte arquivo com base no nome, metadados E descri'' @ c_cedilla @ a_tilde
       @ ''o do usu'' @ a_acute @ ''rio.'' @ newline @ newline
     @ existingFoldersBlock (''Pastas j'' @ a_acute @ '' existentes:'' @ newline) existingFolders
     @ ''Arquivo: '' @ meta_Name file @ newline @ ''Tipo: '' @ meta_MimeType file @ newline
       @ ''Tamanho: '' @ itoa (meta_Size file) @ '' bytes'' @ newline @ newline
     @ ''Descri'' @ c_cedilla @ a_tilde @ ''o do usu'' @ a_acute @ ''rio:'' @ newline @ ''---'' @ newline"
  define post where "post =
     newline @ ''---'' @ newline @ newline
     @ ''Com base nesta descri'' @ c_cedilla @ a_tilde
       @ ''o, sugira a melhor pasta e nome para o arquivo.'' @ newline
     @ newline @ ''Retorne um array JSON com a classifica'' @ c_cedilla @ a_tilde @ ''o.''"
  have "\<forall>d. buildDescriptionPrompt file d existingFolders = pre @ d @ post"
    by (simp add: buildDescriptionPrompt_def pre_def post_def)
  then show ?thesis by blast
qed

text \<open>
  Claim C8, as amended. The prompt of \<open>ClassifyWithContent\<close> holds the content itself
  when it has at most 2000 bytes, and otherwise its first 2000 bytes followed by the
  marker "... [truncado]". The prompt of \<open>ClassifyWithDescription\<close> holds the user's
  description itself, whatever its length. These are the prompts sent to the model.
\<close>

theorem prompt_payload_truncation:
  "(\<exists>pre post. \<forall>content. buildContentPrompt file content existingFolders
       = pre @ (if 2000 < length content then take 2000 content @ ''... [truncado]'' else content) @ post)
   \<and> (\<exists>pre post. \<forall>userDescription. buildDescriptionPrompt file userDescription existingFolders
       = pre @ userDescription @ post)
   \<and> snd (ClassifyWithContent c file content existingFolders prompts)
      = prompts @ [buildContentPrompt file content existingFolders]
   \<and> snd (ClassifyWithDescription c file userDescription existingFolders prompts)
      = prompts @ [buildDescriptionPrompt file userDescription existingFolders]"
  using content_prompt_shape [of "file" existingFolders]
    description_prompt_shape [of "file" existingFolders]
  by (simp add: ClassifyWithContent_def ClassifyWithDescription_def Let_def split: sum.splits)

text \<open>
  A description of 2001 bytes and its first 2000 bytes give different prompts: the
  description is not truncated, so the claim as stated is false for descriptions.
\<close>

theorem long_description_not_truncated:
  "buildDescriptionPrompt (metadataOf reportFile) (replicate 2001 (CHR ''x'')) []
   \<noteq> buildDescriptionPrompt (metadataOf reportFile) (take 2000 (replicate 2001 (CHR ''x''))) []"
proof
  assume "buildDescriptionPrompt (metadataOf reportFile) (replicate 2001 (CHR ''x'')) []
     = buildDescriptionPrompt (metadataOf reportFile) (take 2000 (replicate 2001 (CHR ''x''))) []"
  then have "length (buildDescriptionPrompt (metadataOf reportFile) (replicate 2001 (CHR ''x'')) [])
     = length (buildDescriptionPrompt (metadataOf reportFile) (take 2000 (replicate 2001 (CHR ''x''))) [])"
    by simp
  then show False
    by (simp add: buildDescriptionPrompt_def)
qed

theorem prompt_payload_truncation_witness:
  "(\<exists>pre post. \<forall>content. buildContentPrompt (metadataOf reportFile) content []
       = pre @ (if 2000 < length content then take 2000 content @ ''... [truncado]'' else content) @ post)
   \<and> snd (ClassifyWithContent (demoClassifier []) (metadataOf reportFile) (replicate 2001 (CHR ''x'')) [] [])
      = [buildContentPrompt (metadataOf reportFile) (replicate 2001 (CHR ''x'')) []]"
  using prompt_payload_truncation [of "metadataOf reportFile" "[]" "demoClassifier []" "replicate 2001 (CHR ''x'')" "[]" "[]"]
  by simp

section \<open>The backup staging\<close>

lemma selection_set:
  "set (selectFilesToBackup (filter (\<lambda>f. \<not> IsFolder f) allFiles) (filter IsFolder allFiles) n)
   = {f \<in> set allFiles. \<not> (IsFolder f \<and> Name f = n)}"
  by (auto simp: selectFilesToBackup_def)

lemma demo_find_backup:
  "FindOrCreateNestedFolder demoService ''backup'' ''root'' []
   = (Inr (Some backupItem),
      [ListCall (''name = '' @ apos @ ''backup'' @ apos @ '' and '' @ apos @ ''root'' @ apos
                 @ '' in parents and mimeType = '' @ apos @ ''application/vnd.google-apps.folder''
                 @ apos @ '' and trashed = false'') 1 []])"
  by (simp add: FindOrCreateNestedFolder_def FindOrCreateFolder_def FindFolderByName_def
      demoService_def backupItem_def escapeDriveQuery_def ReplaceAll_def trim_eval)

lemma retry_update_log:
  "\<exists>n. snd (Retry (update_operation srv fileID name a r) ticks calls)
        = calls @ replicate (Suc n) (UpdateCall fileID name a r)"
proof (induction ticks arbitrary: calls)
  case Nil
  have "snd (Retry (update_operation srv fileID name a r) [] calls)
        = calls @ replicate (Suc 0) (UpdateCall fileID name a r)"
    by (simp add: update_operation_def Let_def split: sum.splits)
  then show ?case by blast
next
  case (Cons t ts)
  let ?c = "UpdateCall fileID name a r"
  show ?case
  proof (cases "fst (update_operation srv fileID name a r calls) = fst (update_operation srv fileID name a r calls)
                \<and> (\<exists>e. fst (update_operation srv fileID name a r calls) = Retryable e) \<and> t = Wait")
    case True
    then obtain e where e: "update_operation srv fileID name a r calls = (Retryable e, calls @ [?c])"
      by (auto simp: update_operation_def Let_def split: sum.splits if_splits)
    from Cons.IH [of "calls @ [?c]"] obtain n
      where "snd (Retry (update_operation srv fileID name a r) ts (calls @ [?c]))
             = (calls @ [?c]) @ replicate (Suc n) ?c" by blast
    with e True have "snd (Retry (update_operation srv fileID name a r) (t # ts) calls)
             = calls @ replicate (Suc (Suc n)) ?c" by simp
    then show ?thesis by blast
  next
    case False
    then have "snd (Retry (update_operation srv fileID name a r) (t # ts) calls)
             = calls @ replicate (Suc 0) ?c"
      by (cases t) (auto simp: update_operation_def Let_def split: sum.splits if_splits)
    then show ?thesis by blast
  qed
qed

lemma MoveFile_log:
  "\<exists>n. snd (MoveFile srv fileID newParentID oldParentID calls)
        = calls @ replicate (Suc n) (UpdateCall fileID None (Some newParentID) (Some oldParentID))"
proof -
  from retry_update_log [of srv fileID None "Some newParentID" "Some oldParentID" "backoff srv calls" calls]
  obtain n where "snd (Retry (update_operation srv fileID None (Some newParentID) (Some oldParentID))
                        (backoff srv calls) calls)
        = calls @ replicate (Suc n) (UpdateCall fileID None (Some newParentID) (Some oldParentID))"
    by blast
  then have "snd (MoveFile srv fileID newParentID oldParentID calls)
        = calls @ replicate (Suc n) (UpdateCall fileID None (Some newParentID) (Some oldParentID))"
    by (auto simp: MoveFile_def split: prod.splits option.splits)
  then show ?thesis by blast
qed

lemma backupLoop_moves:
  assumes "\<forall>i. \<not> backupCancelled ctx i"
  shows "\<exists>extra. backupLoop srv ctx (Some bf) i fs calls = (None, calls @ extra)
           \<and> set extra = (\<lambda>f. UpdateCall (ID f) None (Some (ID bf))
                                  (Some (if length (Parents f) > 0 then hd (Parents f) else ''root''))) ` set fs"
proof (induction fs arbitrary: i calls)
  case Nil
  then show ?case by simp
next
  case (Cons f fs)
  let ?mv = "\<lambda>f. UpdateCall (ID f) None (Some (ID bf))
                      (Some (if length (Parents f) > 0 then hd (Parents f) else ''root''))"
  let ?old = "if length (Parents f) > 0 then hd (Parents f) else ''root''"
  from MoveFile_log [of srv "ID f" "ID bf" ?old calls] obtain n
    where n: "snd (MoveFile srv (ID f) (ID bf) ?old calls) = calls @ replicate (Suc n) (?mv f)"
    by blast
  from Cons.IH [of "i + 1" "calls @ replicate (Suc n) (?mv f)"] obtain extra
    where extra: "backupLoop srv ctx (Some bf) (i + 1) fs (calls @ replicate (Suc n) (?mv f))
                  = (None, (calls @ replicate (Suc n) (?mv f)) @ extra)"
      "set extra = ?mv ` set fs" by blast
  have "backupLoop srv ctx (Some bf) i (f # fs) calls
        = backupLoop srv ctx (Some bf) (i + 1) fs (snd (MoveFile srv (ID f) (ID bf) ?old calls))"
    using assms by (simp add: Let_def split: prod.splits)
  with n extra(1) have "backupLoop srv ctx (Some bf) i (f # fs) calls
        = (None, calls @ (replicate (Suc n) (?mv f) @ extra))"
    by simp
  moreover have "set (replicate (Suc n) (?mv f) @ extra) = ?mv ` set (f # fs)"
    using extra(2) by auto
  ultimately show ?case by blast
qed

lemma selection_list:
  "selectFilesToBackup (filter (\<lambda>f. \<not> IsFolder f) allFiles) (filter IsFolder allFiles) n
   = filter (\<lambda>f. \<not> IsFolder f) allFiles @ filter (\<lambda>f. IsFolder f \<and> Name f \<noteq> n) allFiles"
proof -
  have "filter (\<lambda>f. \<not> (Name f = n \<and> IsFolder f)) (filter (\<lambda>f. \<not> IsFolder f) allFiles)
        = filter (\<lambda>f. \<not> IsFolder f) allFiles"
    by (induction allFiles) auto
  moreover have "filter (\<lambda>f. \<not> (Name f = n)) (filter IsFolder allFiles)
        = filter (\<lambda>f. IsFolder f \<and> Name f \<noteq> n) allFiles"
    by (induction allFiles) auto
  ultimately show ?thesis by (simp add: selectFilesToBackup_def)
qed

lemma stage_moves_selection:
  assumes root: "listing srv calls ''root'' = Inr allFiles"
    and folder: "FindOrCreateNestedFolder srv (BackupFolder cfg) ''root'' calls = (Inr (Some bf), calls1)"
    and fresh: "\<not> resume"
    and live: "\<forall>i. \<not> backupCancelled ctx i"
    and some: "filter (\<lambda>f. \<not> (IsFolder f \<and> Name f = hd (Split (BackupFolder cfg)))) allFiles \<noteq> []"
  shows "\<exists>extra.
           stageBackup srv ctx cfg resume calls
           = (Inr (Some bf,
                   filter (\<lambda>f. \<not> IsFolder f) allFiles
                   @ filter (\<lambda>f. IsFolder f \<and> Name f \<noteq> hd (Split (BackupFolder cfg))) allFiles),
              calls1 @ extra)
           \<and> set extra
             = (if DryRun cfg then {}
                else (\<lambda>f. UpdateCall (ID f) None (Some (ID bf))
                            (Some (if length (Parents f) > 0 then hd (Parents f) else ''root'')))
                     ` {f \<in> set allFiles. \<not> (IsFolder f \<and> Name f = hd (Split (BackupFolder cfg)))})"
proof -
  let ?n = "hd (Split (BackupFolder cfg))"
  let ?sel = "filter (\<lambda>f. \<not> IsFolder f) allFiles @ filter (\<lambda>f. IsFolder f \<and> Name f \<noteq> ?n) allFiles"
  let ?mv = "\<lambda>f. UpdateCall (ID f) None (Some (ID bf))
                      (Some (if length (Parents f) > 0 then hd (Parents f) else ''root''))"
  have set_sel: "set ?sel = {f \<in> set allFiles. \<not> (IsFolder f \<and> Name f = ?n)}"
    by auto
  from some have "{f \<in> set allFiles. \<not> (IsFolder f \<and> Name f = ?n)} \<noteq> {}"
    by (auto simp: filter_empty_conv)
  with set_sel have nonempty: "length ?sel \<noteq> 0"
    by (metis length_0_conv set_empty)
  let ?S = "selectFilesToBackup (filter (\<lambda>f. \<not> IsFolder f) allFiles) (filter IsFolder allFiles) ?n"
  from nonempty have S: "?S \<noteq> []"
    by (simp only: selection_list) simp
  have pre0: "stageBackup srv ctx cfg resume calls
      = (if \<not> DryRun cfg then
           (case backupLoop srv ctx (Some bf) 0 ?S calls1 of
              (Some e, calls2) \<Rightarrow> (Inl e, calls2)
            | (None, calls2) \<Rightarrow> (Inr (Some bf, ?S), calls2))
         else (Inr (Some bf, ?S), calls1))"
    using fresh S
    by (simp add: stageBackup_def ListAllFiles_def root folder Let_def)
  have pre: "stageBackup srv ctx cfg resume calls
      = (if \<not> DryRun cfg then
           (case backupLoop srv ctx (Some bf) 0 ?sel calls1 of
              (Some e, calls2) \<Rightarrow> (Inl e, calls2)
            | (None, calls2) \<Rightarrow> (Inr (Some bf, ?sel), calls2))
         else (Inr (Some bf, ?sel), calls1))"
    using pre0 unfolding selection_list .
  show ?thesis
  proof (cases "DryRun cfg")
    case True
    with pre have "stageBackup srv ctx cfg resume calls = (Inr (Some bf, ?sel), calls1 @ [])"
      by simp
    with True show ?thesis by (intro exI [of _ "[]"]) simp
  next
    case False
    from backupLoop_moves [OF live, of srv bf 0 ?sel calls1] obtain extra
      where extra: "backupLoop srv ctx (Some bf) 0 ?sel calls1 = (None, calls1 @ extra)"
        "set extra = ?mv ` set ?sel" by blast
    from pre False extra(1) have "stageBackup srv ctx cfg resume calls = (Inr (Some bf, ?sel), calls1 @ extra)"
      by simp
    moreover from extra(2) set_sel have "set extra = ?mv ` {f \<in> set allFiles. \<not> (IsFolder f \<and> Name f = ?n)}"
      by simp
    ultimately show ?thesis using False by (intro exI [of _ extra]) simp
  qed
qed

lemma photo_find_backup:
  "FindOrCreateNestedFolder photoService ''backup'' ''root'' []
   = (Inr (Some backupItem),
      [ListCall (''name = '' @ apos @ ''backup'' @ apos @ '' and '' @ apos @ ''root'' @ apos
                 @ '' in parents and mimeType = '' @ apos @ ''application/vnd.google-apps.folder''
                 @ apos @ '' and trashed = false'') 1 []])"
  by (simp add: FindOrCreateNestedFolder_def FindOrCreateFolder_def FindFolderByName_def
      photoService_def demoService_def backupItem_def escapeDriveQuery_def ReplaceAll_def trim_eval)

lemma demo_stage_eval:
  "stageBackup demoService neverCancelled \<lparr> BackupFolder = ''backup'', DryRun = False \<rparr> False []
     = (Inr (Some backupItem,
             [item ''a-id'' ''A.txt'' ''text/plain'' ''root'',
              item ''b-id'' ''B.pdf'' ''application/pdf'' ''root'']),
        [ListCall (''name = '' @ apos @ ''backup'' @ apos @ '' and '' @ apos @ ''root'' @ apos
                   @ '' in parents and mimeType = '' @ apos @ ''application/vnd.google-apps.folder''
                   @ apos @ '' and trashed = false'') 1 [],
         UpdateCall ''a-id'' None (Some ''backup-id'') (Some ''root''),
         UpdateCall ''b-id'' None (Some ''backup-id'') (Some ''root'')])"
proof -
  have root: "ListAllFiles (listing demoService []) =
      Inr [item ''a-id'' ''A.txt'' ''text/plain'' ''root'',
           item ''b-id'' ''B.pdf'' ''application/pdf'' ''root'', backupItem]"
    by (simp add: ListAllFiles_def demoService_def)
  have folders: "\<not> IsFolder (item ''a-id'' ''A.txt'' ''text/plain'' ''root'')"
    "\<not> IsFolder (item ''b-id'' ''B.pdf'' ''application/pdf'' ''root'')" "IsFolder backupItem"
    by (simp_all add: IsFolder_def item_def backupItem_def)
  have sel: "selectFilesToBackup
      [item ''a-id'' ''A.txt'' ''text/plain'' ''root'', item ''b-id'' ''B.pdf'' ''application/pdf'' ''root'']
      [backupItem] ''backup''
      = [item ''a-id'' ''A.txt'' ''text/plain'' ''root'', item ''b-id'' ''B.pdf'' ''application/pdf'' ''root'']"
    by (simp add: selectFilesToBackup_def item_def backupItem_def IsFolder_def)
  have upd: "Files_Update demoService calls fileID name a r
      = Inr \<lparr> Id = fileID, file_Name = [], file_MimeType = [], file_Parents = [],
               file_CreatedTime = [], file_ModifiedTime = [], file_Size = 0 \<rparr>" for calls fileID name a r
    by (simp add: demoService_def)
  have bo: "backoff demoService calls = [Wait, Wait, Stop]" for calls
    by (simp add: demoService_def)
  have mv: "MoveFile demoService fileID newParentID oldParentID calls
      = (None, calls @ [UpdateCall fileID None (Some newParentID) (Some oldParentID)])"
    for fileID newParentID oldParentID calls
    by (simp add: MoveFile_def bo update_operation_def upd)
  show ?thesis
    unfolding stageBackup_def
    by (simp add: root folders sel demo_find_backup mv neverCancelled_def)
      (simp add: item_def backupItem_def)
qed

text \<open>
  Claim C6. For every root listing, when the run is not in resume mode, the backup
  folder is resolved, the run is not cancelled and something is selected, the staging
  hands on exactly the root items except the folders named as the first segment of the
  backup path (the files first, then the folders), and outside dry-run mode the update
  requests it sends are exactly the moves of these items under the backup folder. With
  A.txt, B.pdf and the folder backup in the root and the backup path "backup", the
  staging moves A.txt and B.pdf under the backup folder and sends no request for the
  backup folder itself.
\<close>

theorem backup_selection_excludes_backup_folder:
  assumes "listing srv calls ''root'' = Inr allFiles"
    and "FindOrCreateNestedFolder srv (BackupFolder cfg) ''root'' calls = (Inr (Some bf), calls1)"
    and "\<not> resume"
    and "\<forall>i. \<not> backupCancelled ctx i"
    and "filter (\<lambda>f. \<not> (IsFolder f \<and> Name f = hd (Split (BackupFolder cfg)))) allFiles \<noteq> []"
  shows "(\<exists>extra.
           stageBackup srv ctx cfg resume calls
           = (Inr (Some bf,
                   filter (\<lambda>f. \<not> IsFolder f) allFiles
                   @ filter (\<lambda>f. IsFolder f \<and> Name f \<noteq> hd (Split (BackupFolder cfg))) allFiles),
              calls1 @ extra)
           \<and> set extra
             = (if DryRun cfg then {}
                else (\<lambda>f. UpdateCall (ID f) None (Some (ID bf))
                            (Some (if length (Parents f) > 0 then hd (Parents f) else ''root'')))
                     ` {f \<in> set allFiles. \<not> (IsFolder f \<and> Name f = hd (Split (BackupFolder cfg)))}))
   \<and> set (filter (\<lambda>f. \<not> IsFolder f) allFiles
          @ filter (\<lambda>f. IsFolder f \<and> Name f \<noteq> hd (Split (BackupFolder cfg))) allFiles)
     = {f \<in> set allFiles. \<not> (IsFolder f \<and> Name f = hd (Split (BackupFolder cfg)))}
   \<and> set (selectFilesToBackup (filter (\<lambda>f. \<not> IsFolder f) allFiles) (filter IsFolder allFiles)
          (hd (Split backupPath)))
     = {f \<in> set allFiles. \<not> (IsFolder f \<and> Name f = hd (Split backupPath))}
   \<and> stageBackup demoService neverCancelled \<lparr> BackupFolder = ''backup'', DryRun = False \<rparr> False []
     = (Inr (Some backupItem,
             [item ''a-id'' ''A.txt'' ''text/plain'' ''root'',
              item ''b-id'' ''B.pdf'' ''application/pdf'' ''root'']),
        [ListCall (''name = '' @ apos @ ''backup'' @ apos @ '' and '' @ apos @ ''root'' @ apos
                   @ '' in parents and mimeType = '' @ apos @ ''application/vnd.google-apps.folder''
                   @ apos @ '' and trashed = false'') 1 [],
         UpdateCall ''a-id'' None (Some ''backup-id'') (Some ''root''),
         UpdateCall ''b-id'' None (Some ''backup-id'') (Some ''root'')])"
proof (intro conjI)
  show "\<exists>extra.
           stageBackup srv ctx cfg resume calls
           = (Inr (Some bf,
                   filter (\<lambda>f. \<not> IsFolder f) allFiles
                   @ filter (\<lambda>f. IsFolder f \<and> Name f \<noteq> hd (Split (BackupFolder cfg))) allFiles),
              calls1 @ extra)
           \<and> set extra
             = (if DryRun cfg then {}
                else (\<lambda>f. UpdateCall (ID f) None (Some (ID bf))
                            (Some (if length (Parents f) > 0 then hd (Parents f) else ''root'')))
                     ` {f \<in> set allFiles. \<not> (IsFolder f \<and> Name f = hd (Split (BackupFolder cfg)))})"
    using assms by (rule stage_moves_selection)
  show "set (filter (\<lambda>f. \<not> IsFolder f) allFiles
          @ filter (\<lambda>f. IsFolder f \<and> Name f \<noteq> hd (Split (BackupFolder cfg))) allFiles)
     = {f \<in> set allFiles. \<not> (IsFolder f \<and> Name f = hd (Split (BackupFolder cfg)))}"
    by auto
  show "set (selectFilesToBackup (filter (\<lambda>f. \<not> IsFolder f) allFiles) (filter IsFolder allFiles)
          (hd (Split backupPath)))
     = {f \<in> set allFiles. \<not> (IsFolder f \<and> Name f = hd (Split backupPath))}"
    by (rule selection_set)
  show "stageBackup demoService neverCancelled \<lparr> BackupFolder = ''backup'', DryRun = False \<rparr> False []
     = (Inr (Some backupItem,
             [item ''a-id'' ''A.txt'' ''text/plain'' ''root'',
              item ''b-id'' ''B.pdf'' ''application/pdf'' ''root'']),
        [ListCall (''name = '' @ apos @ ''backup'' @ apos @ '' and '' @ apos @ ''root'' @ apos
                   @ '' in parents and mimeType = '' @ apos @ ''application/vnd.google-apps.folder''
                   @ apos @ '' and trashed = false'') 1 [],
         UpdateCall ''a-id'' None (Some ''backup-id'') (Some ''root''),
         UpdateCall ''b-id'' None (Some ''backup-id'') (Some ''root'')])"
    by (rule demo_stage_eval)
qed

theorem backup_selection_excludes_backup_folder_witness:
  "listing photoService [] ''root''
     = Inr [item ''a-id'' ''A.txt'' ''text/plain'' ''root'',
            item ''fotos-id'' ''Fotos'' ''application/vnd.google-apps.folder'' ''root'',
            backupItem]
   \<and> (\<exists>extra.
        stageBackup photoService neverCancelled \<lparr> BackupFolder = ''backup'', DryRun = False \<rparr> False []
        = (Inr (Some backupItem,
                [item ''a-id'' ''A.txt'' ''text/plain'' ''root'',
                 item ''fotos-id'' ''Fotos'' ''application/vnd.google-apps.folder'' ''root'']),
           [ListCall (''name = '' @ apos @ ''backup'' @ apos @ '' and '' @ apos @ ''root'' @ apos
                      @ '' in parents and mimeType = '' @ apos @ ''application/vnd.google-apps.folder''
                      @ apos @ '' and trashed = false'') 1 []] @ extra)
        \<and> set extra
          = {UpdateCall ''a-id'' None (Some ''backup-id'') (Some ''root''),
             UpdateCall ''fotos-id'' None (Some ''backup-id'') (Some ''root'')})"
proof -
  let ?all = "[item ''a-id'' ''A.txt'' ''text/plain'' ''root'',
               item ''fotos-id'' ''Fotos'' ''application/vnd.google-apps.folder'' ''root'',
               backupItem]"
  let ?cfg = "\<lparr> BackupFolder = ''backup'', DryRun = False \<rparr>"
  have root: "listing photoService [] ''root'' = Inr ?all"
    by (simp add: photoService_def)
  have folder: "FindOrCreateNestedFolder photoService (BackupFolder ?cfg) ''root'' []
      = (Inr (Some backupItem),
         [ListCall (''name = '' @ apos @ ''backup'' @ apos @ '' and '' @ apos @ ''root'' @ apos
                    @ '' in parents and mimeType = '' @ apos @ ''application/vnd.google-apps.folder''
                    @ apos @ '' and trashed = false'') 1 []])"
    using photo_find_backup by simp
  have fresh: "\<not> False"
    by simp
  have live: "\<forall>i. \<not> backupCancelled neverCancelled i"
    by (simp add: neverCancelled_def)
  have sel: "filter (\<lambda>f. \<not> IsFolder f) ?all
             @ filter (\<lambda>f. IsFolder f \<and> Name f \<noteq> hd (Split (BackupFolder ?cfg))) ?all
             = [item ''a-id'' ''A.txt'' ''text/plain'' ''root'',
                item ''fotos-id'' ''Fotos'' ''application/vnd.google-apps.folder'' ''root'']"
    by (simp add: item_def backupItem_def IsFolder_def)
  have kept: "{f \<in> set ?all. \<not> (IsFolder f \<and> Name f = hd (Split (BackupFolder ?cfg)))}
             = {item ''a-id'' ''A.txt'' ''text/plain'' ''root'',
                item ''fotos-id'' ''Fotos'' ''application/vnd.google-apps.folder'' ''root''}"
  proof -
    have "{f \<in> set ?all. \<not> (IsFolder f \<and> Name f = hd (Split (BackupFolder ?cfg)))}
          = set (filter (\<lambda>f. \<not> (IsFolder f \<and> Name f = hd (Split (BackupFolder ?cfg)))) ?all)"
      by (simp only: set_filter)
    also have "filter (\<lambda>f. \<not> (IsFolder f \<and> Name f = hd (Split (BackupFolder ?cfg)))) ?all
          = [item ''a-id'' ''A.txt'' ''text/plain'' ''root'',
             item ''fotos-id'' ''Fotos'' ''application/vnd.google-apps.folder'' ''root'']"
      by (simp add: item_def backupItem_def IsFolder_def)
    finally show ?thesis by simp
  qed
  have some: "filter (\<lambda>f. \<not> (IsFolder f \<and> Name f = hd (Split (BackupFolder ?cfg)))) ?all \<noteq> []"
    by (simp add: item_def backupItem_def IsFolder_def)
  from backup_selection_excludes_backup_folder [OF root folder fresh live some, THEN conjunct1]
  obtain extra where
    run: "stageBackup photoService neverCancelled ?cfg False []
          = (Inr (Some backupItem,
                  filter (\<lambda>f. \<not> IsFolder f) ?all
                  @ filter (\<lambda>f. IsFolder f \<and> Name f \<noteq> hd (Split (BackupFolder ?cfg))) ?all),
             [ListCall (''name = '' @ apos @ ''backup'' @ apos @ '' and '' @ apos @ ''root'' @ apos
                    @ '' in parents and mimeType = '' @ apos @ ''application/vnd.google-apps.folder''
                    @ apos @ '' and trashed = false'') 1 []] @ extra)"
    and moved: "set extra
          = (if DryRun ?cfg then {}
             else (\<lambda>f. UpdateCall (ID f) None (Some (ID backupItem))
                         (Some (if length (Parents f) > 0 then hd (Parents f) else ''root'')))
                  ` {f \<in> set ?all. \<not> (IsFolder f \<and> Name f = hd (Split (BackupFolder ?cfg)))})"
    by blast
  from moved have "set extra
          = {UpdateCall ''a-id'' None (Some ''backup-id'') (Some ''root''),
             UpdateCall ''fotos-id'' None (Some ''backup-id'') (Some ''root'')}"
    unfolding kept by (simp add: item_def backupItem_def)
  with run [unfolded sel] root show ?thesis
    by blast
qed

section \<open>One turn of the file loop\<close>

lemma demo_classify:
  "ClassifySingle (demoClassifier [reportSuggestion]) (metadataOf reportFile) [] []
   = (Inr reportSuggestion, [buildClassificationPrompt [metadataOf reportFile] []])"
  by (simp add: ClassifySingle_def ClassifyBatch_def parseResponse_def demoClassifier_def)

lemma demo_find_target:
  "FindOrCreateNestedFolder demoService (SuggestedFolder reportSuggestion) ''root'' calls
   = (Inr (Some \<lparr> ID = ''dest-id'', Name = ''dest'', MimeType = ''application/vnd.google-apps.folder'',
                   Parents = [''root''], CreatedTime = [], ModifiedTime = [], Size = 0 \<rparr>),
      calls @
      [ListCall (''name = '' @ apos @ ''Trabalho'' @ apos @ '' and '' @ apos @ ''root'' @ apos
                 @ '' in parents and mimeType = '' @ apos @ ''application/vnd.google-apps.folder''
                 @ apos @ '' and trashed = false'') 1 [],
       ListCall (''name = '' @ apos @ ''Relat'' @ [CHR 0xC3, CHR 0xB3] @ ''rios'' @ apos @ '' and ''
                 @ apos @ ''dest-id'' @ apos
                 @ '' in parents and mimeType = '' @ apos @ ''application/vnd.google-apps.folder''
                 @ apos @ '' and trashed = false'') 1 []])"
  by (simp add: FindOrCreateNestedFolder_def FindOrCreateFolder_def FindFolderByName_def
      demoService_def escapeDriveQuery_def ReplaceAll_def trim_eval reportSuggestion_def)

lemma demo_move:
  "MoveFile demoService fileID newParentID oldParentID calls
   = (None, calls @ [UpdateCall fileID None (Some newParentID) (Some oldParentID)])"
  by (simp add: MoveFile_def update_operation_def demoService_def)

lemma demo_decide:
  "decide cls reportFile reportSuggestion v [''c'' @ newline, newline, ''m'' @ newline]
   = (Target (SuggestedFolder reportSuggestion) (suggestedOrOriginalName reportSuggestion reportFile),
      v\<lparr>skipped := skipped v + 1\<rparr>, [])"
proof -
  have "decide cls reportFile reportSuggestion v [''c'' @ newline, newline, ''m'' @ newline]
      = decide cls reportFile reportSuggestion (v\<lparr>skipped := skipped v + 1\<rparr>) [''m'' @ newline]"
    by (rule decide_create_empty [OF line_c line_empty])
  also have "\<dots> = (Target (SuggestedFolder reportSuggestion)
                      (suggestedOrOriginalName reportSuggestion reportFile),
                    v\<lparr>skipped := skipped v + 1\<rparr>, [])"
    by (rule decide_accept) (simp only: line_m, simp)
  finally show ?thesis .
qed

lemma demo_target:
  "moveToTarget demoService (Some backupItem) reportFile (SuggestedFolder reportSuggestion)
     (suggestedOrOriginalName reportSuggestion reportFile) v
   = (NextFile,
      v\<lparr>requests := requests v @
          [ListCall (''name = '' @ apos @ ''Trabalho'' @ apos @ '' and '' @ apos @ ''root'' @ apos
                 @ '' in parents and mimeType = '' @ apos @ ''application/vnd.google-apps.folder''
                 @ apos @ '' and trashed = false'') 1 [],
           ListCall (''name = '' @ apos @ ''Relat'' @ [CHR 0xC3, CHR 0xB3] @ ''rios'' @ apos @ '' and ''
                 @ apos @ ''dest-id'' @ apos
                 @ '' in parents and mimeType = '' @ apos @ ''application/vnd.google-apps.folder''
                 @ apos @ '' and trashed = false'') 1 [],
           UpdateCall ''file-1'' None (Some ''dest-id'') (Some ''backup-id'')],
        existingFolderNames :=
          (if SuggestedFolder reportSuggestion \<in> set (existingFolderNames v) then existingFolderNames v
           else existingFolderNames v @ [SuggestedFolder reportSuggestion]),
        organized := organized v + 1\<rparr>)"
  unfolding moveToTarget_def demo_find_target
  by (simp add: demo_move suggestedOrOriginalName_def reportSuggestion_def reportFile_def)

lemma demo_turn:
  "organizeFile demoService (demoClassifier [reportSuggestion]) neverCancelled (Some backupItem) 0
     reportFile startVars stdin
   = (case decide (demoClassifier [reportSuggestion]) reportFile reportSuggestion
            (startVars\<lparr>prompts_sent := [buildClassificationPrompt [metadataOf reportFile] []],
               cache := Set NewCache (CacheKey (Name reportFile) (MimeType reportFile))
                          (Some reportSuggestion)\<rparr>) stdin of
        (Target targetFolder targetName, v2, stdin2) \<Rightarrow>
          (case moveToTarget demoService (Some backupItem) reportFile targetFolder targetName v2 of
             (fl, v3) \<Rightarrow> (fl, v3, stdin2))
      | (SkipFile, v2, stdin2) \<Rightarrow> (NextFile, v2, stdin2)
      | (QuitRun, v2, stdin2) \<Rightarrow> (Return Quit, v2, stdin2))"
proof -
  have cached: "Get NewCache key = None" for key
    by (simp add: Get_def NewCache_def)
  have start: "existingFolderNames startVars = []" "prompts_sent startVars = []"
    "cache startVars = NewCache"
    by (simp_all add: startVars_def)
  show ?thesis
    unfolding organizeFile_def
    by (simp add: neverCancelled_def cached start demo_classify Let_def)
qed

text \<open>
  Claim C2, evaluated at a failing input. One file, the input c, then an empty folder
  name, then m: the skipped counter is incremented, the prompt loop asks again for the
  same file, and the file is moved and counted as organized as well. The claim says that
  the file is skipped with no remote mutation and that the loop goes to the next file.
\<close>

theorem empty_folder_name_reprompts_same_file:
  "organizeFile demoService (demoClassifier [reportSuggestion]) neverCancelled (Some backupItem) 0
     reportFile startVars [''c'' @ newline, newline, ''m'' @ newline]
   = (NextFile,
      \<lparr> requests =
          [ListCall (''name = '' @ apos @ ''Trabalho'' @ apos @ '' and '' @ apos @ ''root'' @ apos
                 @ '' in parents and mimeType = '' @ apos @ ''application/vnd.google-apps.folder''
                 @ apos @ '' and trashed = false'') 1 [],
           ListCall (''name = '' @ apos @ ''Relat'' @ [CHR 0xC3, CHR 0xB3] @ ''rios'' @ apos @ '' and ''
                 @ apos @ ''dest-id'' @ apos
                 @ '' in parents and mimeType = '' @ apos @ ''application/vnd.google-apps.folder''
                 @ apos @ '' and trashed = false'') 1 [],
           UpdateCall ''file-1'' None (Some ''dest-id'') (Some ''backup-id'')],
        prompts_sent = [buildClassificationPrompt [metadataOf reportFile] []],
        cache = Set NewCache (CacheKey ''relatorio.pdf'' ''application/pdf'') (Some reportSuggestion),
        existingFolderNames = [''Trabalho/Relat'' @ [CHR 0xC3, CHR 0xB3] @ ''rios''],
        organized = 1,
        skipped = 1 \<rparr>,
      [])"
  unfolding demo_turn demo_decide
  by (simp add: demo_target startVars_def) (simp add: reportFile_def reportSuggestion_def)

end
